theory Spec2Isabelle
  imports Main "HOL-Library.Word"
begin

section \<open>The storage engine the expedition database talks to\<close>

text \<open>
  \<^verbatim>\<open>zone/expedition_database.cpp\<close> builds SQL text with \<^verbatim>\<open>fmt::format\<close> and hands it to
  \<^verbatim>\<open>database.QueryDatabase\<close>. The embedding keeps that shape: every operation builds a
  statement (the abstract syntax of the SQL text it formats, column names included) and
  passes it to \<open>QueryDatabase\<close>, which runs it on an explicit database state.

  A value interpolated into the text (\<^verbatim>\<open>{}\<close> for a number, \<^verbatim>\<open>'{}'\<close> for a string, escaped
  or not) is embedded as the literal holding that value: escaping and the server's
  unescaping cancel out. \<^verbatim>\<open>DATETIME\<close> columns hold seconds since the epoch, so that
  \<^verbatim>\<open>FROM_UNIXTIME\<close> and \<^verbatim>\<open>UNIX_TIMESTAMP\<close> are the identity on them. Text is compared by
  equality of the stored value.
\<close>

subsection \<open>Values and expressions\<close>

datatype cell = INTEGER nat | VARCHAR string | NULL

definition bool_cell :: "bool \<Rightarrow> cell" where
  "bool_cell b = INTEGER (if b then 1 else 0)"

datatype expr =
    Column string
  | Qualified string string
  | Literal cell
  | NOW
  | VALUES string
  | UNIX_TIMESTAMP expr
  | FROM_UNIXTIME expr
  | Equals expr expr
  | Greater expr expr
  | Both expr expr
  | In_list expr "cell list"

abbreviation FALSE :: expr where "FALSE \<equiv> Literal (INTEGER 0)"
abbreviation TRUE :: expr where "TRUE \<equiv> Literal (INTEGER 1)"

text \<open>A row in scope: the value of every column, under the alias of its table.\<close>

type_synonym env = "((string \<times> string) \<times> cell) list"

fun truth :: "cell \<Rightarrow> bool" where
  "truth (INTEGER n) = (n \<noteq> 0)"
| "truth (VARCHAR s) = False"
| "truth NULL = False"

fun sql_equal :: "cell \<Rightarrow> cell \<Rightarrow> cell" where
  "sql_equal (INTEGER a) (INTEGER b) = bool_cell (a = b)"
| "sql_equal (VARCHAR a) (VARCHAR b) = bool_cell (a = b)"
| "sql_equal x y = NULL"

fun sql_greater :: "cell \<Rightarrow> cell \<Rightarrow> cell" where
  "sql_greater (INTEGER a) (INTEGER b) = bool_cell (b < a)"
| "sql_greater x y = NULL"

definition sql_and :: "cell \<Rightarrow> cell \<Rightarrow> cell" where
  "sql_and x y =
     (if x = INTEGER 0 \<or> y = INTEGER 0 then INTEGER 0
      else if truth x \<and> truth y then INTEGER 1
      else NULL)"

definition lookup_column :: "env \<Rightarrow> string \<Rightarrow> cell" where
  "lookup_column e c =
     (case filter (\<lambda>k. snd (fst k) = c) e of [k] \<Rightarrow> snd k | _ \<Rightarrow> NULL)"

definition lookup_qualified :: "env \<Rightarrow> string \<Rightarrow> string \<Rightarrow> cell" where
  "lookup_qualified e t c = (case map_of e (t, c) of Some v \<Rightarrow> v | None \<Rightarrow> NULL)"

text \<open>
  \<open>eval now e v x\<close>: the value of \<open>x\<close> on the row \<open>e\<close>; \<open>v\<close> is the row an
  \<^verbatim>\<open>INSERT\<close> proposed, which \<^verbatim>\<open>VALUES(col)\<close> reads in \<^verbatim>\<open>ON DUPLICATE KEY UPDATE\<close>.
\<close>

fun eval :: "nat \<Rightarrow> env \<Rightarrow> env \<Rightarrow> expr \<Rightarrow> cell" where
  "eval now e v (Column c) = lookup_column e c"
| "eval now e v (Qualified t c) = lookup_qualified e t c"
| "eval now e v (Literal x) = x"
| "eval now e v NOW = INTEGER now"
| "eval now e v (VALUES c) = lookup_column v c"
| "eval now e v (UNIX_TIMESTAMP x) = eval now e v x"
| "eval now e v (FROM_UNIXTIME x) = eval now e v x"
| "eval now e v (Equals x y) = sql_equal (eval now e v x) (eval now e v y)"
| "eval now e v (Greater x y) = sql_greater (eval now e v x) (eval now e v y)"
| "eval now e v (Both x y) = sql_and (eval now e v x) (eval now e v y)"
| "eval now e v (In_list x vs) =
     bool_cell (list_ex (\<lambda>y. truth (sql_equal (eval now e v x) y)) vs)"

text \<open>
  Names are resolved before any row is read: an unqualified column must name exactly one
  column of the tables in scope, a qualified one must exist under its alias. A statement
  with a column that does not resolve is rejected (unknown or ambiguous column).
\<close>

fun resolves :: "(string \<times> string) list \<Rightarrow> expr \<Rightarrow> bool" where
  "resolves sc (Column c) = (length (filter (\<lambda>k. snd k = c) sc) = 1)"
| "resolves sc (Qualified t c) = ((t, c) \<in> set sc)"
| "resolves sc (Literal x) = True"
| "resolves sc NOW = True"
| "resolves sc (VALUES c) = (c \<in> snd ` set sc)"
| "resolves sc (UNIX_TIMESTAMP x) = resolves sc x"
| "resolves sc (FROM_UNIXTIME x) = resolves sc x"
| "resolves sc (Equals x y) = (resolves sc x \<and> resolves sc y)"
| "resolves sc (Greater x y) = (resolves sc x \<and> resolves sc y)"
| "resolves sc (Both x y) = (resolves sc x \<and> resolves sc y)"
| "resolves sc (In_list x vs) = resolves sc x"

subsection \<open>Tables\<close>

text \<open>
  The \<^verbatim>\<open>CREATE TABLE\<close> statements are not part of the sources. Each table has the columns
  the queries of \<^verbatim>\<open>expedition_database.cpp\<close> name for it (the surrogate \<^verbatim>\<open>id\<close> of the
  lockout and member tables, which no query names, is left out).
\<close>

record details_row =
  ed_id :: nat
  ed_uuid :: string
  ed_instance_id :: nat
  ed_expedition_name :: string
  ed_leader_id :: nat
  ed_min_players :: nat
  ed_max_players :: nat
  ed_add_replay_on_join :: bool
  ed_is_locked :: bool

record member_row =
  em_expedition_id :: nat
  em_character_id :: nat

record character_lockout_row =
  cl_character_id :: nat
  cl_expire_time :: nat
  cl_duration :: nat
  cl_from_expedition_uuid :: string
  cl_expedition_name :: string
  cl_event_name :: string
  cl_is_pending :: bool

record expedition_lockout_row =
  el_expedition_id :: nat
  el_from_expedition_uuid :: string
  el_event_name :: string
  el_expire_time :: nat
  el_duration :: nat

record character_row =
  cd_id :: nat
  cd_name :: string

definition details_columns :: "string list" where
  "details_columns = [''id'', ''uuid'', ''instance_id'', ''expedition_name'', ''leader_id'',
     ''min_players'', ''max_players'', ''add_replay_on_join'', ''is_locked'']"

definition member_columns :: "string list" where
  "member_columns = [''expedition_id'', ''character_id'']"

definition character_lockout_columns :: "string list" where
  "character_lockout_columns = [''character_id'', ''expire_time'', ''duration'',
     ''from_expedition_uuid'', ''expedition_name'', ''event_name'', ''is_pending'']"

definition expedition_lockout_columns :: "string list" where
  "expedition_lockout_columns = [''expedition_id'', ''from_expedition_uuid'', ''event_name'',
     ''expire_time'', ''duration'']"

definition character_columns :: "string list" where
  "character_columns = [''id'', ''name'']"

definition details_cells :: "details_row \<Rightarrow> cell list" where
  "details_cells r = [INTEGER (ed_id r), VARCHAR (ed_uuid r), INTEGER (ed_instance_id r),
     VARCHAR (ed_expedition_name r), INTEGER (ed_leader_id r), INTEGER (ed_min_players r),
     INTEGER (ed_max_players r), bool_cell (ed_add_replay_on_join r),
     bool_cell (ed_is_locked r)]"

definition member_cells :: "member_row \<Rightarrow> cell list" where
  "member_cells r = [INTEGER (em_expedition_id r), INTEGER (em_character_id r)]"

definition character_lockout_cells :: "character_lockout_row \<Rightarrow> cell list" where
  "character_lockout_cells r = [INTEGER (cl_character_id r), INTEGER (cl_expire_time r),
     INTEGER (cl_duration r), VARCHAR (cl_from_expedition_uuid r),
     VARCHAR (cl_expedition_name r), VARCHAR (cl_event_name r), bool_cell (cl_is_pending r)]"

definition expedition_lockout_cells :: "expedition_lockout_row \<Rightarrow> cell list" where
  "expedition_lockout_cells r = [INTEGER (el_expedition_id r),
     VARCHAR (el_from_expedition_uuid r), VARCHAR (el_event_name r),
     INTEGER (el_expire_time r), INTEGER (el_duration r)]"

definition character_cells :: "character_row \<Rightarrow> cell list" where
  "character_cells r = [INTEGER (cd_id r), VARCHAR (cd_name r)]"

definition row_env :: "string \<Rightarrow> string list \<Rightarrow> cell list \<Rightarrow> env" where
  "row_env a cols cells = zip (map (\<lambda>c. (a, c)) cols) cells"

text \<open>
  The state \<open>QueryDatabase\<close> runs on: the five tables, the server's clock (\<^verbatim>\<open>NOW()\<close>),
  whether the server can be reached, the counter behind \<^verbatim>\<open>expedition_details.id\<close>, the
  column defaults an \<^verbatim>\<open>INSERT\<close> falls back on (they belong to the missing schema, so
  they are parameters of the state), and the number of statements sent so far.
\<close>

record database =
  expedition_details :: "details_row list"
  expedition_members :: "member_row list"
  expedition_character_lockouts :: "character_lockout_row list"
  expedition_lockouts :: "expedition_lockout_row list"
  character_data :: "character_row list"
  now :: nat
  online :: bool
  auto_increment :: nat
  default_add_replay_on_join :: bool
  default_is_locked :: bool
  default_is_pending :: bool
  queries_sent :: nat

definition table_columns :: "string \<Rightarrow> string list option" where
  "table_columns t =
     (if t = ''expedition_details'' then Some details_columns
      else if t = ''expedition_members'' then Some member_columns
      else if t = ''expedition_character_lockouts'' then Some character_lockout_columns
      else if t = ''expedition_lockouts'' then Some expedition_lockout_columns
      else if t = ''character_data'' then Some character_columns
      else None)"

definition table_cells :: "database \<Rightarrow> string \<Rightarrow> cell list list" where
  "table_cells db t =
     (if t = ''expedition_details'' then map details_cells (expedition_details db)
      else if t = ''expedition_members'' then map member_cells (expedition_members db)
      else if t = ''expedition_character_lockouts''
        then map character_lockout_cells (expedition_character_lockouts db)
      else if t = ''expedition_lockouts''
        then map expedition_lockout_cells (expedition_lockouts db)
      else if t = ''character_data'' then map character_cells (character_data db)
      else [])"

subsection \<open>Writing a row\<close>

text \<open>
  A table as the engine sees it: its name, its columns, how a row reads as cells, how
  one column of a row is assigned (\<open>None\<close>: no such column, or a value of the wrong
  type), the columns an \<^verbatim>\<open>INSERT\<close> must give, and the unique key of a row.
\<close>

record ('r, 'k) table =
  table_name :: string
  columns :: "string list"
  row_cells :: "'r \<Rightarrow> cell list"
  set_column :: "string \<Rightarrow> cell \<Rightarrow> 'r \<Rightarrow> 'r option"
  required :: "string list"
  row_key :: "'r \<Rightarrow> 'k"

definition env_of :: "('r, 'k) table \<Rightarrow> 'r \<Rightarrow> env" where
  "env_of T r = row_env (table_name T) (columns T) (row_cells T r)"

definition scope_of :: "('r, 'k) table \<Rightarrow> (string \<times> string) list" where
  "scope_of T = map (\<lambda>c. (table_name T, c)) (columns T)"

definition details_set :: "string \<Rightarrow> cell \<Rightarrow> details_row \<Rightarrow> details_row option" where
  "details_set c x r =
     (case x of
        INTEGER n \<Rightarrow>
          (if c = ''id'' then Some (r\<lparr>ed_id := n\<rparr>)
           else if c = ''instance_id'' then Some (r\<lparr>ed_instance_id := n\<rparr>)
           else if c = ''leader_id'' then Some (r\<lparr>ed_leader_id := n\<rparr>)
           else if c = ''min_players'' then Some (r\<lparr>ed_min_players := n\<rparr>)
           else if c = ''max_players'' then Some (r\<lparr>ed_max_players := n\<rparr>)
           else if c = ''add_replay_on_join'' then Some (r\<lparr>ed_add_replay_on_join := (n \<noteq> 0)\<rparr>)
           else if c = ''is_locked'' then Some (r\<lparr>ed_is_locked := (n \<noteq> 0)\<rparr>)
           else None)
      | VARCHAR s \<Rightarrow>
          (if c = ''uuid'' then Some (r\<lparr>ed_uuid := s\<rparr>)
           else if c = ''expedition_name'' then Some (r\<lparr>ed_expedition_name := s\<rparr>)
           else None)
      | NULL \<Rightarrow> None)"

definition member_set :: "string \<Rightarrow> cell \<Rightarrow> member_row \<Rightarrow> member_row option" where
  "member_set c x r =
     (case x of
        INTEGER n \<Rightarrow>
          (if c = ''expedition_id'' then Some (r\<lparr>em_expedition_id := n\<rparr>)
           else if c = ''character_id'' then Some (r\<lparr>em_character_id := n\<rparr>)
           else None)
      | VARCHAR s \<Rightarrow> None
      | NULL \<Rightarrow> None)"

definition character_lockout_set ::
  "string \<Rightarrow> cell \<Rightarrow> character_lockout_row \<Rightarrow> character_lockout_row option" where
  "character_lockout_set c x r =
     (case x of
        INTEGER n \<Rightarrow>
          (if c = ''character_id'' then Some (r\<lparr>cl_character_id := n\<rparr>)
           else if c = ''expire_time'' then Some (r\<lparr>cl_expire_time := n\<rparr>)
           else if c = ''duration'' then Some (r\<lparr>cl_duration := n\<rparr>)
           else if c = ''is_pending'' then Some (r\<lparr>cl_is_pending := (n \<noteq> 0)\<rparr>)
           else None)
      | VARCHAR s \<Rightarrow>
          (if c = ''from_expedition_uuid'' then Some (r\<lparr>cl_from_expedition_uuid := s\<rparr>)
           else if c = ''expedition_name'' then Some (r\<lparr>cl_expedition_name := s\<rparr>)
           else if c = ''event_name'' then Some (r\<lparr>cl_event_name := s\<rparr>)
           else None)
      | NULL \<Rightarrow> None)"

definition expedition_lockout_set ::
  "string \<Rightarrow> cell \<Rightarrow> expedition_lockout_row \<Rightarrow> expedition_lockout_row option" where
  "expedition_lockout_set c x r =
     (case x of
        INTEGER n \<Rightarrow>
          (if c = ''expedition_id'' then Some (r\<lparr>el_expedition_id := n\<rparr>)
           else if c = ''expire_time'' then Some (r\<lparr>el_expire_time := n\<rparr>)
           else if c = ''duration'' then Some (r\<lparr>el_duration := n\<rparr>)
           else None)
      | VARCHAR s \<Rightarrow>
          (if c = ''from_expedition_uuid'' then Some (r\<lparr>el_from_expedition_uuid := s\<rparr>)
           else if c = ''event_name'' then Some (r\<lparr>el_event_name := s\<rparr>)
           else None)
      | NULL \<Rightarrow> None)"

text \<open>
  Modelled from the spec: the unique keys of the tables, whose \<^verbatim>\<open>CREATE TABLE\<close> statements
  are missing from the sources. The per-character lockout table is ``unique on
  character+name+event'', the per-expedition lockout table ``unique on expedition+event'',
  the roster has ``a uniqueness constraint on character identity'', and an expedition
  record is identified by its surrogate id.
\<close>

definition details_key :: "details_row \<Rightarrow> nat" where
  "details_key r = ed_id r"

definition member_key :: "member_row \<Rightarrow> nat" where
  "member_key r = em_character_id r"

definition character_lockout_key :: "character_lockout_row \<Rightarrow> nat \<times> string \<times> string" where
  "character_lockout_key r = (cl_character_id r, cl_expedition_name r, cl_event_name r)"

definition expedition_lockout_key :: "expedition_lockout_row \<Rightarrow> nat \<times> string" where
  "expedition_lockout_key r = (el_expedition_id r, el_event_name r)"

definition details_table :: "(details_row, nat) table" where
  "details_table = \<lparr>table_name = ''expedition_details'', columns = details_columns,
     row_cells = details_cells, set_column = details_set,
     required = [''uuid'', ''instance_id'', ''expedition_name'', ''leader_id'',
       ''min_players'', ''max_players''],
     row_key = details_key\<rparr>"

definition member_table :: "(member_row, nat) table" where
  "member_table = \<lparr>table_name = ''expedition_members'', columns = member_columns,
     row_cells = member_cells, set_column = member_set,
     required = [''expedition_id'', ''character_id''],
     row_key = member_key\<rparr>"

definition character_lockout_table ::
  "(character_lockout_row, nat \<times> string \<times> string) table" where
  "character_lockout_table = \<lparr>table_name = ''expedition_character_lockouts'',
     columns = character_lockout_columns,
     row_cells = character_lockout_cells, set_column = character_lockout_set,
     required = [''character_id'', ''expire_time'', ''duration'', ''from_expedition_uuid'',
       ''expedition_name'', ''event_name''],
     row_key = character_lockout_key\<rparr>"

definition expedition_lockout_table :: "(expedition_lockout_row, nat \<times> string) table" where
  "expedition_lockout_table = \<lparr>table_name = ''expedition_lockouts'',
     columns = expedition_lockout_columns,
     row_cells = expedition_lockout_cells, set_column = expedition_lockout_set,
     required = [''expedition_id'', ''from_expedition_uuid'', ''event_name'',
       ''expire_time'', ''duration''],
     row_key = expedition_lockout_key\<rparr>"

text \<open>
  The row an \<^verbatim>\<open>INSERT\<close> starts from: columns the statement does not list keep their
  default; \<^verbatim>\<open>expedition_details.id\<close> is drawn from the counter.
\<close>

definition blank_details :: "database \<Rightarrow> nat \<Rightarrow> details_row" where
  "blank_details db i = \<lparr>ed_id = auto_increment db + i, ed_uuid = [], ed_instance_id = 0,
     ed_expedition_name = [], ed_leader_id = 0, ed_min_players = 0, ed_max_players = 0,
     ed_add_replay_on_join = default_add_replay_on_join db,
     ed_is_locked = default_is_locked db\<rparr>"

definition blank_member :: "nat \<Rightarrow> member_row" where
  "blank_member i = \<lparr>em_expedition_id = 0, em_character_id = 0\<rparr>"

definition blank_character_lockout :: "database \<Rightarrow> nat \<Rightarrow> character_lockout_row" where
  "blank_character_lockout db i = \<lparr>cl_character_id = 0, cl_expire_time = 0, cl_duration = 0,
     cl_from_expedition_uuid = [], cl_expedition_name = [], cl_event_name = [],
     cl_is_pending = default_is_pending db\<rparr>"

definition blank_expedition_lockout :: "nat \<Rightarrow> expedition_lockout_row" where
  "blank_expedition_lockout i = \<lparr>el_expedition_id = 0, el_from_expedition_uuid = [],
     el_event_name = [], el_expire_time = 0, el_duration = 0\<rparr>"

text \<open>Assignments \<^verbatim>\<open>col = expr, ...\<close>, applied left to right to one row.\<close>

fun assign ::
  "('r, 'k) table \<Rightarrow> nat \<Rightarrow> env \<Rightarrow> (string \<times> expr) list \<Rightarrow> 'r \<Rightarrow> 'r option" where
  "assign T n v [] r = Some r"
| "assign T n v (a # as) r =
     (case set_column T (fst a) (eval n (env_of T r) v (snd a)) r of
        None \<Rightarrow> None
      | Some r' \<Rightarrow> assign T n v as r')"

definition new_row ::
  "('r, 'k) table \<Rightarrow> nat \<Rightarrow> 'r \<Rightarrow> string list \<Rightarrow> expr list \<Rightarrow> 'r option" where
  "new_row T n blank cols xs =
     (if length xs = length cols \<and> distinct cols \<and> set (required T) \<subseteq> set cols
      then assign T n [] (zip cols xs) blank
      else None)"

text \<open>
  One proposed row meets the table. With no row of its key it is appended. Otherwise a
  plain \<^verbatim>\<open>INSERT\<close> fails (duplicate key), and \<^verbatim>\<open>ON DUPLICATE KEY UPDATE\<close> applies its
  assignments to the row that holds the key instead; the result must keep keys unique.
\<close>

definition put_row ::
  "('r, 'k) table \<Rightarrow> nat \<Rightarrow> (string \<times> expr) list option \<Rightarrow> 'r list \<Rightarrow> 'r \<Rightarrow> 'r list option" where
  "put_row T n odku rows new =
     (if row_key T new \<notin> row_key T ` set rows then Some (rows @ [new])
      else case odku of
        None \<Rightarrow> None
      | Some as \<Rightarrow>
          (case those (map (\<lambda>r. if row_key T r = row_key T new
                                 then assign T n (env_of T new) as r else Some r) rows) of
             None \<Rightarrow> None
           | Some rows' \<Rightarrow> if distinct (map (row_key T) rows') then Some rows' else None))"

text \<open>
  A multi-row \<^verbatim>\<open>INSERT\<close> takes its rows in order and is atomic: when one row fails the
  statement fails and no row of it is kept.
\<close>

fun insert_all ::
  "('r, 'k) table \<Rightarrow> nat \<Rightarrow> (nat \<Rightarrow> 'r) \<Rightarrow> string list \<Rightarrow> (string \<times> expr) list option \<Rightarrow>
   nat \<Rightarrow> expr list list \<Rightarrow> 'r list \<Rightarrow> 'r list option" where
  "insert_all T n blank cols odku i [] rows = Some rows"
| "insert_all T n blank cols odku i (xs # xss) rows =
     (case new_row T n (blank i) cols xs of
        None \<Rightarrow> None
      | Some new \<Rightarrow>
          (case put_row T n odku rows new of
             None \<Rightarrow> None
           | Some rows' \<Rightarrow> insert_all T n blank cols odku (Suc i) xss rows'))"

definition insert_into ::
  "('r, 'k) table \<Rightarrow> nat \<Rightarrow> (nat \<Rightarrow> 'r) \<Rightarrow> string list \<Rightarrow> expr list list \<Rightarrow>
   (string \<times> expr) list option \<Rightarrow> 'r list \<Rightarrow> 'r list option" where
  "insert_into T n blank cols xss odku rows =
     (if (case odku of None \<Rightarrow> True
          | Some as \<Rightarrow> list_all (\<lambda>a. fst a \<in> set (columns T) \<and> resolves (scope_of T) (snd a)) as)
      then insert_all T n blank cols odku 0 xss rows
      else None)"

definition update_where ::
  "('r, 'k) table \<Rightarrow> nat \<Rightarrow> (string \<times> expr) list \<Rightarrow> expr \<Rightarrow> 'r list \<Rightarrow> 'r list option" where
  "update_where T n as w rows =
     (if list_all (\<lambda>a. fst a \<in> set (columns T) \<and> resolves (scope_of T) (snd a)) as
         \<and> resolves (scope_of T) w
      then (case those (map (\<lambda>r. if truth (eval n (env_of T r) [] w)
                                  then assign T n [] as r else Some r) rows) of
              None \<Rightarrow> None
            | Some rows' \<Rightarrow> if distinct (map (row_key T) rows') then Some rows' else None)
      else None)"

definition delete_where :: "('r, 'k) table \<Rightarrow> nat \<Rightarrow> expr \<Rightarrow> 'r list \<Rightarrow> 'r list option" where
  "delete_where T n w rows =
     (if resolves (scope_of T) w
      then Some (filter (\<lambda>r. \<not> truth (eval n (env_of T r) [] w)) rows)
      else None)"

subsection \<open>Reading rows\<close>

datatype join_kind = INNER_JOIN | LEFT_JOIN

datatype join = Join join_kind string string expr

fun join_source :: "join \<Rightarrow> string \<times> string" where
  "join_source (Join k t a c) = (t, a)"

fun join_on :: "join \<Rightarrow> expr" where
  "join_on (Join k t a c) = c"

fun from_scope :: "(string \<times> string) list \<Rightarrow> (string \<times> string) list option" where
  "from_scope [] = Some []"
| "from_scope (ta # tas) =
     (case table_columns (fst ta) of
        None \<Rightarrow> None
      | Some cs \<Rightarrow>
          (case from_scope tas of
             None \<Rightarrow> None
           | Some sc \<Rightarrow> Some (map (\<lambda>c. (snd ta, c)) cs @ sc)))"

definition source_env :: "string \<Rightarrow> string \<Rightarrow> cell list \<Rightarrow> env" where
  "source_env t a cells =
     row_env a (case table_columns t of Some cs \<Rightarrow> cs | None \<Rightarrow> []) cells"

definition null_env :: "string \<Rightarrow> string \<Rightarrow> env" where
  "null_env t a =
     (case table_columns t of
        Some cs \<Rightarrow> row_env a cs (map (\<lambda>c. NULL) cs)
      | None \<Rightarrow> [])"

text \<open>
  A join extends each row on its left by every row of the joined table that satisfies the
  \<^verbatim>\<open>ON\<close> condition; a \<^verbatim>\<open>LEFT JOIN\<close> keeps a left row that has no partner, with \<^verbatim>\<open>NULL\<close> in
  the joined columns.
\<close>

fun join_rows :: "database \<Rightarrow> env list \<Rightarrow> join list \<Rightarrow> env list" where
  "join_rows db ls [] = ls"
| "join_rows db ls (Join k t a c # js) =
     join_rows db
       (concat (map (\<lambda>l.
          let ms = filter (\<lambda>e. truth (eval (now db) e [] c))
                     (map (\<lambda>r. l @ source_env t a r) (table_cells db t))
          in if ms = [] \<and> k = LEFT_JOIN then [l @ null_env t a] else ms) ls))
       js"

fun order_key :: "cell \<Rightarrow> nat" where
  "order_key (INTEGER n) = Suc n"
| "order_key (VARCHAR s) = 0"
| "order_key NULL = 0"

definition select_from ::
  "database \<Rightarrow> expr list \<Rightarrow> string \<Rightarrow> string \<Rightarrow> join list \<Rightarrow> expr option \<Rightarrow> expr option \<Rightarrow>
   cell list list option" where
  "select_from db items t a js w ob =
     (case from_scope ((t, a) # map join_source js) of
        None \<Rightarrow> None
      | Some sc \<Rightarrow>
          if list_all (resolves sc) (items @ map join_on js)
             \<and> (case w of None \<Rightarrow> True | Some c \<Rightarrow> resolves sc c)
             \<and> (case ob of None \<Rightarrow> True | Some c \<Rightarrow> resolves sc c)
          then
            let joined = join_rows db (map (source_env t a) (table_cells db t)) js;
                kept = (case w of None \<Rightarrow> joined
                        | Some c \<Rightarrow> filter (\<lambda>e. truth (eval (now db) e [] c)) joined);
                sorted = (case ob of None \<Rightarrow> kept
                          | Some c \<Rightarrow> sort_key (\<lambda>e. order_key (eval (now db) e [] c)) kept)
            in Some (map (\<lambda>e. map (eval (now db) e []) items) sorted)
          else None)"

subsection \<open>Statements and their execution\<close>

datatype statement =
    SELECT "expr list" string string "join list" "expr option" "expr option"
  | INSERT_INTO string "string list" "expr list list" "(string \<times> expr) list option"
  | UPDATE string "(string \<times> expr) list" expr
  | DELETE_FROM string expr

text \<open>
  \<open>execute\<close> gives the rows read, the first id generated, and the new state; \<open>None\<close>
  when the server rejects the statement (a name that does not resolve, a duplicate key,
  a value of the wrong type), in which case nothing is written. The expedition database
  never writes \<^verbatim>\<open>character_data\<close>.
\<close>

fun execute :: "statement \<Rightarrow> database \<Rightarrow> (cell list list \<times> nat \<times> database) option" where
  "execute (SELECT items t a js w ob) db =
     (case select_from db items t a js w ob of
        None \<Rightarrow> None
      | Some rows \<Rightarrow> Some (rows, 0, db))"
| "execute (INSERT_INTO t cols xss odku) db =
     (if t = ''expedition_details'' then
        (case insert_into details_table (now db) (blank_details db) cols xss odku
                (expedition_details db) of
           None \<Rightarrow> None
         | Some rows \<Rightarrow>
             Some ([], auto_increment db,
                   db\<lparr>expedition_details := rows,
                      auto_increment := auto_increment db + length xss\<rparr>))
      else if t = ''expedition_members'' then
        (case insert_into member_table (now db) blank_member cols xss odku
                (expedition_members db) of
           None \<Rightarrow> None
         | Some rows \<Rightarrow> Some ([], 0, db\<lparr>expedition_members := rows\<rparr>))
      else if t = ''expedition_character_lockouts'' then
        (case insert_into character_lockout_table (now db) (blank_character_lockout db)
                cols xss odku (expedition_character_lockouts db) of
           None \<Rightarrow> None
         | Some rows \<Rightarrow> Some ([], 0, db\<lparr>expedition_character_lockouts := rows\<rparr>))
      else if t = ''expedition_lockouts'' then
        (case insert_into expedition_lockout_table (now db) blank_expedition_lockout
                cols xss odku (expedition_lockouts db) of
           None \<Rightarrow> None
         | Some rows \<Rightarrow> Some ([], 0, db\<lparr>expedition_lockouts := rows\<rparr>))
      else None)"
| "execute (UPDATE t as w) db =
     (if t = ''expedition_details'' then
        (case update_where details_table (now db) as w (expedition_details db) of
           None \<Rightarrow> None
         | Some rows \<Rightarrow> Some ([], 0, db\<lparr>expedition_details := rows\<rparr>))
      else if t = ''expedition_members'' then
        (case update_where member_table (now db) as w (expedition_members db) of
           None \<Rightarrow> None
         | Some rows \<Rightarrow> Some ([], 0, db\<lparr>expedition_members := rows\<rparr>))
      else if t = ''expedition_character_lockouts'' then
        (case update_where character_lockout_table (now db) as w
                (expedition_character_lockouts db) of
           None \<Rightarrow> None
         | Some rows \<Rightarrow> Some ([], 0, db\<lparr>expedition_character_lockouts := rows\<rparr>))
      else if t = ''expedition_lockouts'' then
        (case update_where expedition_lockout_table (now db) as w (expedition_lockouts db) of
           None \<Rightarrow> None
         | Some rows \<Rightarrow> Some ([], 0, db\<lparr>expedition_lockouts := rows\<rparr>))
      else None)"
| "execute (DELETE_FROM t w) db =
     (if t = ''expedition_details'' then
        (case delete_where details_table (now db) w (expedition_details db) of
           None \<Rightarrow> None
         | Some rows \<Rightarrow> Some ([], 0, db\<lparr>expedition_details := rows\<rparr>))
      else if t = ''expedition_members'' then
        (case delete_where member_table (now db) w (expedition_members db) of
           None \<Rightarrow> None
         | Some rows \<Rightarrow> Some ([], 0, db\<lparr>expedition_members := rows\<rparr>))
      else if t = ''expedition_character_lockouts'' then
        (case delete_where character_lockout_table (now db) w
                (expedition_character_lockouts db) of
           None \<Rightarrow> None
         | Some rows \<Rightarrow> Some ([], 0, db\<lparr>expedition_character_lockouts := rows\<rparr>))
      else if t = ''expedition_lockouts'' then
        (case delete_where expedition_lockout_table (now db) w (expedition_lockouts db) of
           None \<Rightarrow> None
         | Some rows \<Rightarrow> Some ([], 0, db\<lparr>expedition_lockouts := rows\<rparr>))
      else None)"

text \<open>
  Modelled from the spec: the result of the query-execution service, whose class
  \<^verbatim>\<open>MySQLRequestResult\<close> is declared outside the sources: ``\<^verbatim>\<open>Execute(statement) ->
  {success, rows, last_inserted_id, affected_rows}\<close>''. A result no query has filled has
  no rows.
\<close>

record MySQLRequestResult =
  Success :: bool
  Rows :: "cell list list"
  LastInsertedID :: "32 word"

definition no_result :: MySQLRequestResult where
  "no_result = \<lparr>Success = False, Rows = [], LastInsertedID = 0\<rparr>"

definition RowCount :: "MySQLRequestResult \<Rightarrow> nat" where
  "RowCount results = length (Rows results)"

text \<open>
  Every statement sent is counted, reach the server or not. When the server cannot be
  reached or rejects the statement, the query fails and the tables are as before.
\<close>

definition QueryDatabase :: "statement \<Rightarrow> database \<Rightarrow> MySQLRequestResult \<times> database" where
  "QueryDatabase query db =
     (let sent = db\<lparr>queries_sent := Suc (queries_sent db)\<rparr>
      in if \<not> online db then (no_result, sent)
         else case execute query sent of
                None \<Rightarrow> (no_result, sent)
              | Some (rows, insert_id, db') \<Rightarrow>
                  (\<lparr>Success = True, Rows = rows, LastInsertedID = of_nat insert_id\<rparr>, db'))"

section \<open>The operations of \<^verbatim>\<open>ExpeditionDatabase\<close>\<close>

text \<open>
  Modelled from the spec: the two value types the operations exchange, declared in
  \<^verbatim>\<open>expedition.h\<close> and \<^verbatim>\<open>expedition_lockout_timer.h\<close>, which are missing from the sources. A
  lockout timer is ``(source expedition UUID, expedition name, event name, expiration
  instant, original duration)'', in the order the sources pass them to its constructor; a
  member is a character id and a name, and the member no leader was found for has ``id 0
  and empty name''.
\<close>

record ExpeditionLockoutTimer =
  m_expedition_uuid :: string
  m_expedition_name :: string
  m_event_name :: string
  m_expire_time :: "64 word"
  m_duration :: "32 word"

record ExpeditionMember =
  char_id :: "32 word"
  name :: string

definition no_member :: ExpeditionMember where
  "no_member = \<lparr>char_id = 0, name = []\<rparr>"

text \<open>
  How values cross the boundary. A number formatted into the text is the literal of its
  value, a \<^verbatim>\<open>bool\<close> is formatted as \<^verbatim>\<open>true\<close> or \<^verbatim>\<open>false\<close>. A result row is an array of
  cells \<^verbatim>\<open>row[i]\<close>; \<^verbatim>\<open>strtoul\<close> and \<^verbatim>\<open>strtoull\<close> return a 64-bit value and stop at its
  maximum. The operations read text only from text columns and numbers only from
  integer columns that are never \<^verbatim>\<open>NULL\<close>; the other cases of the two readers are
  never reached.
\<close>

definition number :: "'a::len word \<Rightarrow> expr" where
  "number w = Literal (INTEGER (unat w))"

definition quoted :: "string \<Rightarrow> expr" where
  "quoted s = Literal (VARCHAR s)"

definition bool_literal :: "bool \<Rightarrow> expr" where
  "bool_literal b = Literal (bool_cell b)"

definition at :: "cell list \<Rightarrow> nat \<Rightarrow> cell" where
  "at row i = (if i < length row then row ! i else NULL)"

fun strtoull :: "cell \<Rightarrow> 64 word" where
  "strtoull (INTEGER n) = (if n < 2 ^ 64 then of_nat n else - 1)"
| "strtoull (VARCHAR s) = 0"
| "strtoull NULL = 0"

definition strtoul :: "cell \<Rightarrow> 64 word" where
  "strtoul x = strtoull x"

fun text_of :: "cell \<Rightarrow> string" where
  "text_of (VARCHAR s) = s"
| "text_of (INTEGER n) = []"
| "text_of NULL = []"


definition LoadCharacterLockouts ::
  "32 word \<Rightarrow> database \<Rightarrow> ExpeditionLockoutTimer list \<times> database" where
  "LoadCharacterLockouts character_id db =
     (let query = SELECT
            [Column ''from_expedition_uuid'', Column ''expedition_name'', Column ''event_name'',
             UNIX_TIMESTAMP (Column ''expire_time''), Column ''duration'']
            ''expedition_character_lockouts'' ''expedition_character_lockouts'' []
            (Some (Both (Both (Equals (Column ''character_id'') (number character_id))
                              (Equals (Column ''is_pending'') FALSE))
                        (Greater (Column ''expire_time'') NOW)))
            None;
          (results, db') = QueryDatabase query db
      in (if Success results
          then map (\<lambda>row. \<lparr>m_expedition_uuid = text_of (at row 0),
                            m_expedition_name = text_of (at row 1),
                            m_event_name = text_of (at row 2),
                            m_expire_time = strtoull (at row 3),
                            m_duration = ucast (strtoul (at row 4))\<rparr>) (Rows results)
          else [], db'))"

definition LoadCharacterLockouts_named ::
  "32 word \<Rightarrow> string \<Rightarrow> database \<Rightarrow> ExpeditionLockoutTimer list \<times> database" where
  "LoadCharacterLockouts_named character_id expedition_name db =
     (let query = SELECT
            [Column ''from_expedition_uuid'', Column ''event_name'',
             UNIX_TIMESTAMP (Column ''expire_time''), Column ''duration'']
            ''expedition_character_lockouts'' ''expedition_character_lockouts'' []
            (Some (Both (Both (Both (Equals (Column ''character_id'') (number character_id))
                                    (Equals (Column ''is_pending'') FALSE))
                              (Greater (Column ''expire_time'') NOW))
                        (Equals (Column ''expedition_name'') (quoted expedition_name))))
            None;
          (results, db') = QueryDatabase query db
      in (if Success results
          then map (\<lambda>row. \<lparr>m_expedition_uuid = text_of (at row 0),
                            m_expedition_name = expedition_name,
                            m_event_name = text_of (at row 1),
                            m_expire_time = strtoull (at row 2),
                            m_duration = ucast (strtoul (at row 3))\<rparr>) (Rows results)
          else [], db'))"

text \<open>
  \<^verbatim>\<open>lockouts[expedition_id].emplace(row[3], ...)\<close>: the inner map is created on first use,
  and \<^verbatim>\<open>emplace\<close> keeps an entry that is already there.
\<close>

definition emplace ::
  "(32 word \<rightharpoonup> (string \<rightharpoonup> ExpeditionLockoutTimer)) \<Rightarrow> 32 word \<Rightarrow> string \<Rightarrow>
   ExpeditionLockoutTimer \<Rightarrow> (32 word \<rightharpoonup> (string \<rightharpoonup> ExpeditionLockoutTimer))" where
  "emplace lockouts expedition_id event timer =
     (let inner = (case lockouts expedition_id of None \<Rightarrow> Map.empty | Some m \<Rightarrow> m)
      in lockouts(expedition_id \<mapsto>
           (case inner event of None \<Rightarrow> inner(event \<mapsto> timer) | Some old \<Rightarrow> inner)))"

definition LoadMultipleExpeditionLockouts ::
  "32 word list \<Rightarrow> database \<Rightarrow>
   (32 word \<rightharpoonup> (string \<rightharpoonup> ExpeditionLockoutTimer)) \<times> database" where
  "LoadMultipleExpeditionLockouts expedition_ids db =
     (let in_expedition_ids_query =
            foldl (\<lambda>q expedition_id. q @ [INTEGER (unat expedition_id)]) [] expedition_ids
      in if in_expedition_ids_query \<noteq> [] then
           (let query = SELECT
                  [Qualified ''expedition_lockouts'' ''expedition_id'',
                   Qualified ''expedition_lockouts'' ''from_expedition_uuid'',
                   Qualified ''expedition_details'' ''expedition_name'',
                   Qualified ''expedition_lockouts'' ''event_name'',
                   UNIX_TIMESTAMP (Qualified ''expedition_lockouts'' ''expire_time''),
                   Qualified ''expedition_lockouts'' ''duration'']
                  ''expedition_lockouts'' ''expedition_lockouts''
                  [Join INNER_JOIN ''expedition_details'' ''expedition_details''
                     (Equals (Qualified ''expedition_lockouts'' ''expedition_id'')
                             (Qualified ''expedition_details'' ''id''))]
                  (Some (In_list (Column ''expedition_id'') in_expedition_ids_query))
                  (Some (Column ''expedition_id''));
                (results, db') = QueryDatabase query db
            in (if Success results
                then foldl (\<lambda>lockouts row.
                       emplace lockouts (ucast (strtoul (at row 0))) (text_of (at row 3))
                         \<lparr>m_expedition_uuid = text_of (at row 1),
                          m_expedition_name = text_of (at row 2),
                          m_event_name = text_of (at row 3),
                          m_expire_time = strtoull (at row 4),
                          m_duration = ucast (strtoul (at row 5))\<rparr>)
                       Map.empty (Rows results)
                else Map.empty, db'))
         else (Map.empty, db))"

definition LoadMembersForCreateRequest ::
  "string list \<Rightarrow> string \<Rightarrow> database \<Rightarrow> MySQLRequestResult \<times> database" where
  "LoadMembersForCreateRequest character_names expedition_name db =
     (let in_character_names_query =
            foldl (\<lambda>q character_name. q @ [VARCHAR character_name]) [] character_names
      in if in_character_names_query \<noteq> [] then
           QueryDatabase (SELECT
             [Qualified ''character_data'' ''id'',
              Qualified ''character_data'' ''name'',
              Qualified ''member'' ''expedition_id'',
              Qualified ''lockout'' ''from_expedition_uuid'',
              UNIX_TIMESTAMP (Qualified ''lockout'' ''expire_time''),
              Qualified ''lockout'' ''duration'',
              Qualified ''lockout'' ''event_name'']
             ''character_data'' ''character_data''
             [Join LEFT_JOIN ''expedition_character_lockouts'' ''lockout''
                (Both (Both (Both (Equals (Qualified ''character_data'' ''id'')
                                          (Qualified ''lockout'' ''character_id''))
                                  (Equals (Qualified ''lockout'' ''is_pending'') FALSE))
                            (Greater (Qualified ''lockout'' ''expire_time'') NOW))
                      (Equals (Qualified ''lockout'' ''expedition_name'')
                              (quoted expedition_name))),
              Join LEFT_JOIN ''expedition_members'' ''member''
                (Equals (Qualified ''character_data'' ''id'')
                        (Qualified ''member'' ''character_id''))]
             (Some (In_list (Qualified ''character_data'' ''name'') in_character_names_query))
             (Some (Qualified ''character_data'' ''id''))) db
         else (no_result, db))"

definition DeleteAllCharacterLockouts :: "32 word \<Rightarrow> database \<Rightarrow> database" where
  "DeleteAllCharacterLockouts character_id db =
     (if character_id \<noteq> 0 then
        snd (QueryDatabase (DELETE_FROM ''expedition_character_lockouts''
               (Equals (Column ''character_id'') (number character_id))) db)
      else db)"

definition DeleteAllCharacterLockouts_named ::
  "32 word \<Rightarrow> string \<Rightarrow> database \<Rightarrow> database" where
  "DeleteAllCharacterLockouts_named character_id expedition_name db =
     (if character_id \<noteq> 0 \<and> expedition_name \<noteq> [] then
        snd (QueryDatabase (DELETE_FROM ''expedition_character_lockouts''
               (Both (Equals (Column ''character_id'') (number character_id))
                     (Equals (Column ''expedition_name'') (quoted expedition_name)))) db)
      else db)"

definition DeleteCharacterLockout ::
  "32 word \<Rightarrow> string \<Rightarrow> string \<Rightarrow> database \<Rightarrow> database" where
  "DeleteCharacterLockout character_id expedition_name event_name db =
     snd (QueryDatabase (DELETE_FROM ''expedition_character_lockouts''
            (Both (Both (Both (Equals (Column ''character_id'') (number character_id))
                              (Equals (Column ''is_pending'') FALSE))
                        (Equals (Column ''expedition_name'') (quoted expedition_name)))
                  (Equals (Column ''event_name'') (quoted event_name)))) db)"

definition DeleteMembersLockout ::
  "ExpeditionMember list \<Rightarrow> string \<Rightarrow> string \<Rightarrow> database \<Rightarrow> database" where
  "DeleteMembersLockout members expedition_name event_name db =
     (let query_character_ids =
            foldl (\<lambda>q member. q @ [INTEGER (unat (char_id member))]) [] members
      in if query_character_ids \<noteq> [] then
           snd (QueryDatabase (DELETE_FROM ''expedition_character_lockouts''
                  (Both (Both (Both (In_list (Column ''character_id'') query_character_ids)
                                    (Equals (Column ''is_pending'') FALSE))
                              (Equals (Column ''expedition_name'') (quoted expedition_name)))
                        (Equals (Column ''event_name'') (quoted event_name)))) db)
         else db)"

definition AssignPendingLockouts :: "32 word \<Rightarrow> string \<Rightarrow> database \<Rightarrow> database" where
  "AssignPendingLockouts character_id expedition_name db =
     snd (QueryDatabase (UPDATE ''expedition_character_lockouts''
            [(''is_pending'', FALSE)]
            (Both (Both (Equals (Column ''character_id'') (number character_id))
                        (Equals (Column ''is_pending'') TRUE))
                  (Equals (Column ''expedition_name'') (quoted expedition_name)))) db)"

definition DeletePendingLockouts :: "32 word \<Rightarrow> database \<Rightarrow> database" where
  "DeletePendingLockouts character_id db =
     snd (QueryDatabase (DELETE_FROM ''expedition_character_lockouts''
            (Both (Equals (Column ''character_id'') (number character_id))
                  (Equals (Column ''is_pending'') TRUE))) db)"

definition DeleteAllMembersPendingLockouts ::
  "ExpeditionMember list \<Rightarrow> database \<Rightarrow> database" where
  "DeleteAllMembersPendingLockouts members db =
     (let query_character_ids =
            foldl (\<lambda>q member. q @ [INTEGER (unat (char_id member))]) [] members
      in if query_character_ids \<noteq> [] then
           snd (QueryDatabase (DELETE_FROM ''expedition_character_lockouts''
                  (Both (In_list (Column ''character_id'') query_character_ids)
                        (Equals (Column ''is_pending'') TRUE))) db)
         else db)"

definition GetExpeditionLeader :: "32 word \<Rightarrow> database \<Rightarrow> ExpeditionMember \<times> database" where
  "GetExpeditionLeader expedition_id db =
     (let query = SELECT
            [Qualified ''expedition_details'' ''leader_id'',
             Qualified ''character_data'' ''name'']
            ''expedition_details'' ''expedition_details''
            [Join INNER_JOIN ''character_data'' ''character_data''
               (Equals (Qualified ''expedition_details'' ''leader_id'')
                       (Qualified ''character_data'' ''id''))]
            (Some (Equals (Column ''expedition_id'') (number expedition_id)))
            None;
          leader = no_member;
          (results, db') = QueryDatabase query db
      in (if Success results \<and> RowCount results > 0
          then (case Rows results of
                  row # rest \<Rightarrow> leader\<lparr>char_id := ucast (strtoul (at row 0)),
                                       name := text_of (at row 1)\<rparr>
                | [] \<Rightarrow> leader)
          else leader, db'))"

definition InsertCharacterLockouts ::
  "32 word \<Rightarrow> ExpeditionLockoutTimer list \<Rightarrow> bool \<Rightarrow> bool \<Rightarrow> database \<Rightarrow> database" where
  "InsertCharacterLockouts character_id lockouts replace_timer is_pending db =
     (let insert_values =
            foldl (\<lambda>q lockout. q @
                     [[number character_id,
                       FROM_UNIXTIME (number (m_expire_time lockout)),
                       number (m_duration lockout),
                       quoted (m_expedition_uuid lockout),
                       quoted (m_expedition_name lockout),
                       quoted (m_event_name lockout),
                       bool_literal is_pending]]) [] lockouts
      in if insert_values \<noteq> [] then
           (let on_duplicate =
                  (if replace_timer
                   then [(''from_expedition_uuid'', VALUES ''from_expedition_uuid''),
                         (''expire_time'', VALUES ''expire_time''),
                         (''duration'', VALUES ''duration'')]
                   else [(''character_id'', VALUES ''character_id'')])
            in snd (QueryDatabase (INSERT_INTO ''expedition_character_lockouts''
                      [''character_id'', ''expire_time'', ''duration'', ''from_expedition_uuid'',
                       ''expedition_name'', ''event_name'', ''is_pending'']
                      insert_values
                      (Some on_duplicate)) db))
         else db)"

definition InsertMembersLockout ::
  "ExpeditionMember list \<Rightarrow> ExpeditionLockoutTimer \<Rightarrow> database \<Rightarrow> database" where
  "InsertMembersLockout members lockout db =
     (let insert_values =
            foldl (\<lambda>q member. q @
                     [[number (char_id member),
                       FROM_UNIXTIME (number (m_expire_time lockout)),
                       number (m_duration lockout),
                       quoted (m_expedition_uuid lockout),
                       quoted (m_expedition_name lockout),
                       quoted (m_event_name lockout)]]) [] members
      in if insert_values \<noteq> [] then
           snd (QueryDatabase (INSERT_INTO ''expedition_character_lockouts''
                  [''character_id'', ''expire_time'', ''duration'', ''from_expedition_uuid'',
                   ''expedition_name'', ''event_name'']
                  insert_values
                  (Some [(''from_expedition_uuid'', VALUES ''from_expedition_uuid''),
                         (''expire_time'', VALUES ''expire_time''),
                         (''duration'', VALUES ''duration'')])) db)
         else db)"

text \<open>
  \<open>InsertLockouts\<close> walks a \<^verbatim>\<open>std::unordered_map\<close> from event name to timer: its entries,
  in the order the iteration yields them.
\<close>

definition InsertLockouts ::
  "32 word \<Rightarrow> (string \<times> ExpeditionLockoutTimer) list \<Rightarrow> database \<Rightarrow> database" where
  "InsertLockouts expedition_id lockouts db =
     (let insert_values =
            foldl (\<lambda>q lockout. q @
                     [[number expedition_id,
                       quoted (m_expedition_uuid (snd lockout)),
                       quoted (m_event_name (snd lockout)),
                       FROM_UNIXTIME (number (m_expire_time (snd lockout))),
                       number (m_duration (snd lockout))]]) [] lockouts
      in if insert_values \<noteq> [] then
           snd (QueryDatabase (INSERT_INTO ''expedition_lockouts''
                  [''expedition_id'', ''from_expedition_uuid'', ''event_name'', ''expire_time'',
                   ''duration'']
                  insert_values
                  (Some [(''from_expedition_uuid'', VALUES ''from_expedition_uuid''),
                         (''expire_time'', VALUES ''expire_time''),
                         (''duration'', VALUES ''duration'')])) db)
         else db)"

definition InsertMember :: "32 word \<Rightarrow> 32 word \<Rightarrow> database \<Rightarrow> database" where
  "InsertMember expedition_id character_id db =
     snd (QueryDatabase (INSERT_INTO ''expedition_members''
            [''expedition_id'', ''character_id'']
            [[number expedition_id, number character_id]]
            (Some [(''character_id'', VALUES ''character_id'')])) db)"

definition InsertMembers :: "32 word \<Rightarrow> ExpeditionMember list \<Rightarrow> database \<Rightarrow> database" where
  "InsertMembers expedition_id members db =
     (let insert_values =
            foldl (\<lambda>q member. q @ [[number expedition_id, number (char_id member)]]) [] members
      in if insert_values \<noteq> [] then
           snd (QueryDatabase (INSERT_INTO ''expedition_members''
                  [''expedition_id'', ''character_id'']
                  insert_values
                  None) db)
         else db)"

section \<open>Notions the statements use\<close>

text \<open>
  The timer a load builds from a row of the per-character lockout table, and the
  well-formedness of that table: its unique index holds.
\<close>

definition timer_of :: "character_lockout_row \<Rightarrow> ExpeditionLockoutTimer" where
  "timer_of r = \<lparr>m_expedition_uuid = cl_from_expedition_uuid r,
     m_expedition_name = cl_expedition_name r,
     m_event_name = cl_event_name r,
     m_expire_time = strtoull (INTEGER (cl_expire_time r)),
     m_duration = ucast (strtoul (INTEGER (cl_duration r)))\<rparr>"

definition unique_lockouts :: "database \<Rightarrow> bool" where
  "unique_lockouts db =
     distinct (map character_lockout_key (expedition_character_lockouts db))"

text \<open>
  A small database for concrete runs: expedition 1 (``Solteris'') led by character 7,
  and character 42 with three lockouts at time 100: one still running, one expiring at
  this very instant, one pending.
\<close>

definition sample_db :: database where
  "sample_db = \<lparr>expedition_details =
       [\<lparr>ed_id = 1, ed_uuid = ''u1'', ed_instance_id = 5, ed_expedition_name = ''Solteris'',
         ed_leader_id = 7, ed_min_players = 1, ed_max_players = 6,
         ed_add_replay_on_join = True, ed_is_locked = False\<rparr>],
     expedition_members = [\<lparr>em_expedition_id = 1, em_character_id = 7\<rparr>],
     expedition_character_lockouts =
       [\<lparr>cl_character_id = 42, cl_expire_time = 110, cl_duration = 3600,
         cl_from_expedition_uuid = ''u1'', cl_expedition_name = ''Solteris'',
         cl_event_name = ''boss1'', cl_is_pending = False\<rparr>,
        \<lparr>cl_character_id = 42, cl_expire_time = 100, cl_duration = 3600,
         cl_from_expedition_uuid = ''u1'', cl_expedition_name = ''Solteris'',
         cl_event_name = ''boss2'', cl_is_pending = False\<rparr>,
        \<lparr>cl_character_id = 42, cl_expire_time = 500, cl_duration = 3600,
         cl_from_expedition_uuid = ''u1'', cl_expedition_name = ''Solteris'',
         cl_event_name = ''boss3'', cl_is_pending = True\<rparr>],
     expedition_lockouts =
       [\<lparr>el_expedition_id = 1, el_from_expedition_uuid = ''u1'', el_event_name = ''boss1'',
         el_expire_time = 200, el_duration = 10\<rparr>],
     character_data = [\<lparr>cd_id = 7, cd_name = ''Bob''\<rparr>, \<lparr>cd_id = 42, cd_name = ''Al''\<rparr>],
     now = 100, online = True, auto_increment = 2,
     default_add_replay_on_join = True, default_is_locked = False, default_is_pending = False,
     queries_sent = 0\<rparr>"

text \<open>
  What one \<^verbatim>\<open>INSERT ... ON DUPLICATE KEY UPDATE\<close> of \<open>InsertCharacterLockouts\<close> comes to, read
  off the engine: the row a lockout proposes, the list of assignments the operation
  picks, their effect on the row that already holds the key, and the table after one
  proposed row. \<open>latest_for\<close> is the last lockout of a batch with the expedition and event
  name of a given one: within one statement a later row for the same key meets the row
  the earlier one has left.
\<close>

definition lockout_row :: "32 word \<Rightarrow> ExpeditionLockoutTimer \<Rightarrow> bool \<Rightarrow> character_lockout_row" where
  "lockout_row c l p = \<lparr>cl_character_id = unat c,
     cl_expire_time = unat (m_expire_time l),
     cl_duration = unat (m_duration l),
     cl_from_expedition_uuid = m_expedition_uuid l,
     cl_expedition_name = m_expedition_name l,
     cl_event_name = m_event_name l,
     cl_is_pending = p\<rparr>"

definition merge_lockout ::
  "bool \<Rightarrow> character_lockout_row \<Rightarrow> character_lockout_row \<Rightarrow> character_lockout_row" where
  "merge_lockout replace_timer r new =
     (if replace_timer
      then r\<lparr>cl_from_expedition_uuid := cl_from_expedition_uuid new,
             cl_expire_time := cl_expire_time new,
             cl_duration := cl_duration new\<rparr>
      else r)"

definition upsert_lockout ::
  "bool \<Rightarrow> character_lockout_row list \<Rightarrow> character_lockout_row \<Rightarrow> character_lockout_row list" where
  "upsert_lockout replace_timer rows new =
     (if character_lockout_key new \<in> character_lockout_key ` set rows
      then map (\<lambda>r. if character_lockout_key r = character_lockout_key new
                     then merge_lockout replace_timer r new else r) rows
      else rows @ [new])"

definition on_duplicate :: "bool \<Rightarrow> (string \<times> expr) list" where
  "on_duplicate replace_timer =
     (if replace_timer
      then [(''from_expedition_uuid'', VALUES ''from_expedition_uuid''),
            (''expire_time'', VALUES ''expire_time''),
            (''duration'', VALUES ''duration'')]
      else [(''character_id'', VALUES ''character_id'')])"


text \<open>Rows and a timer of the sample database, by name.\<close>

definition refresh_boss1 :: ExpeditionLockoutTimer where
  "refresh_boss1 = \<lparr>m_expedition_uuid = ''u9'', m_expedition_name = ''Solteris'',
     m_event_name = ''boss1'', m_expire_time = 7300, m_duration = 7200\<rparr>"

definition boss1_row :: character_lockout_row where
  "boss1_row = \<lparr>cl_character_id = 42, cl_expire_time = 110, cl_duration = 3600,
         cl_from_expedition_uuid = ''u1'', cl_expedition_name = ''Solteris'',
         cl_event_name = ''boss1'', cl_is_pending = False\<rparr>"

definition boss3_row :: character_lockout_row where
  "boss3_row = \<lparr>cl_character_id = 42, cl_expire_time = 500, cl_duration = 3600,
         cl_from_expedition_uuid = ''u1'', cl_expedition_name = ''Solteris'',
         cl_event_name = ''boss3'', cl_is_pending = True\<rparr>"

definition boss2_row :: character_lockout_row where
  "boss2_row = \<lparr>cl_character_id = 42, cl_expire_time = 100, cl_duration = 3600,
         cl_from_expedition_uuid = ''u1'', cl_expedition_name = ''Solteris'',
         cl_event_name = ''boss2'', cl_is_pending = False\<rparr>"



text \<open>
  The sample database after \<open>InsertCharacterLockouts\<close> was called with character id 0:
  the operation has no guard on the id, and the table holds a row of character 0.
\<close>

definition zero_db :: database where
  "zero_db = InsertCharacterLockouts 0 [refresh_boss1] False False sample_db"

definition zero_row :: character_lockout_row where
  "zero_row = \<lparr>cl_character_id = 0, cl_expire_time = 7300, cl_duration = 7200,
     cl_from_expedition_uuid = ''u9'', cl_expedition_name = ''Solteris'',
     cl_event_name = ''boss1'', cl_is_pending = False\<rparr>"

section \<open>Conditions and statements, evaluated\<close>

lemma character_lockout_env:
  "env_of character_lockout_table r =
     [((''expedition_character_lockouts'', ''character_id''), INTEGER (cl_character_id r)),
      ((''expedition_character_lockouts'', ''expire_time''), INTEGER (cl_expire_time r)),
      ((''expedition_character_lockouts'', ''duration''), INTEGER (cl_duration r)),
      ((''expedition_character_lockouts'', ''from_expedition_uuid''), VARCHAR (cl_from_expedition_uuid r)),
      ((''expedition_character_lockouts'', ''expedition_name''), VARCHAR (cl_expedition_name r)),
      ((''expedition_character_lockouts'', ''event_name''), VARCHAR (cl_event_name r)),
      ((''expedition_character_lockouts'', ''is_pending''), bool_cell (cl_is_pending r))]"
  by (simp add: env_of_def character_lockout_table_def row_env_def character_lockout_columns_def
      character_lockout_cells_def)

lemma character_lockout_lookup:
  "lookup_column (env_of character_lockout_table r) ''character_id'' = INTEGER (cl_character_id r)"
  "lookup_column (env_of character_lockout_table r) ''expire_time'' = INTEGER (cl_expire_time r)"
  "lookup_column (env_of character_lockout_table r) ''duration'' = INTEGER (cl_duration r)"
  "lookup_column (env_of character_lockout_table r) ''from_expedition_uuid'' = VARCHAR (cl_from_expedition_uuid r)"
  "lookup_column (env_of character_lockout_table r) ''expedition_name'' = VARCHAR (cl_expedition_name r)"
  "lookup_column (env_of character_lockout_table r) ''event_name'' = VARCHAR (cl_event_name r)"
  "lookup_column (env_of character_lockout_table r) ''is_pending'' = bool_cell (cl_is_pending r)"
  by (simp_all add: character_lockout_env lookup_column_def)

lemma in_list_foldl: "foldl (\<lambda>q x. q @ [f x]) acc xs = acc @ map f xs"
  by (induction xs arbitrary: acc) simp_all

lemma in_list_integers:
  "list_ex (\<lambda>y. truth (sql_equal (INTEGER k) y)) (map (\<lambda>x. INTEGER (f x)) xs) = (k \<in> f ` set xs)"
  by (induction xs) (auto simp add: bool_cell_def)

lemma truth_bool_cell: "truth (bool_cell b) = b"
  by (simp add: bool_cell_def)

lemma truth_and: "truth (sql_and x y) = (truth x \<and> truth y)"
  by (cases x; cases y) (auto simp add: sql_and_def)

lemma pending_is: "truth (sql_equal (bool_cell b) (INTEGER 0)) = (\<not> b)"
  "truth (sql_equal (bool_cell b) (INTEGER 1)) = b"
  by (simp_all add: bool_cell_def)

lemma pending_is_Suc: "truth (sql_equal (bool_cell b) (INTEGER (Suc 0))) = b"
  by (simp add: bool_cell_def)

lemmas where_simps = character_lockout_lookup number_def quoted_def truth_bool_cell truth_and
  pending_is pending_is_Suc in_list_integers

lemma QueryDatabase_delete_lockouts:
  assumes "resolves (scope_of character_lockout_table) w"
  shows "snd (QueryDatabase (DELETE_FROM ''expedition_character_lockouts'' w) db) =
    db\<lparr>expedition_character_lockouts :=
         (if online db
          then filter (\<lambda>r. \<not> truth (eval (now db) (env_of character_lockout_table r) [] w))
                 (expedition_character_lockouts db)
          else expedition_character_lockouts db),
       queries_sent := Suc (queries_sent db)\<rparr>"
  using assms by (simp add: QueryDatabase_def delete_where_def Let_def)

subsection \<open>The deletions\<close>

lemma character_lockout_scope:
  "scope_of character_lockout_table =
     [(''expedition_character_lockouts'', ''character_id''),
      (''expedition_character_lockouts'', ''expire_time''),
      (''expedition_character_lockouts'', ''duration''),
      (''expedition_character_lockouts'', ''from_expedition_uuid''),
      (''expedition_character_lockouts'', ''expedition_name''),
      (''expedition_character_lockouts'', ''event_name''),
      (''expedition_character_lockouts'', ''is_pending'')]"
  by (simp add: scope_of_def character_lockout_table_def character_lockout_columns_def)

lemma DeleteAllCharacterLockouts_eq:
  "DeleteAllCharacterLockouts c db =
     (if c \<noteq> 0 then
        db\<lparr>expedition_character_lockouts :=
             (if online db
              then filter (\<lambda>r. cl_character_id r \<noteq> unat c) (expedition_character_lockouts db)
              else expedition_character_lockouts db),
           queries_sent := Suc (queries_sent db)\<rparr>
      else db)"
  by (simp add: DeleteAllCharacterLockouts_def QueryDatabase_delete_lockouts
      character_lockout_scope where_simps)

lemma DeleteAllCharacterLockouts_named_eq:
  "DeleteAllCharacterLockouts_named c en db =
     (if c \<noteq> 0 \<and> en \<noteq> [] then
        db\<lparr>expedition_character_lockouts :=
             (if online db
              then filter (\<lambda>r. \<not> (cl_character_id r = unat c \<and> cl_expedition_name r = en))
                     (expedition_character_lockouts db)
              else expedition_character_lockouts db),
           queries_sent := Suc (queries_sent db)\<rparr>
      else db)"
  by (simp add: DeleteAllCharacterLockouts_named_def QueryDatabase_delete_lockouts
      character_lockout_scope where_simps)

lemma DeleteCharacterLockout_eq:
  "DeleteCharacterLockout c en ev db =
     db\<lparr>expedition_character_lockouts :=
          (if online db
           then filter (\<lambda>r. \<not> (cl_character_id r = unat c \<and> \<not> cl_is_pending r
                                \<and> cl_expedition_name r = en \<and> cl_event_name r = ev))
                  (expedition_character_lockouts db)
           else expedition_character_lockouts db),
        queries_sent := Suc (queries_sent db)\<rparr>"
  by (simp add: DeleteCharacterLockout_def QueryDatabase_delete_lockouts
      character_lockout_scope where_simps)

lemma DeleteMembersLockout_eq:
  "DeleteMembersLockout ms en ev db =
     (if ms \<noteq> [] then
        db\<lparr>expedition_character_lockouts :=
             (if online db
              then filter (\<lambda>r. \<not> (cl_character_id r \<in> (\<lambda>m. unat (char_id m)) ` set ms
                                   \<and> \<not> cl_is_pending r
                                   \<and> cl_expedition_name r = en \<and> cl_event_name r = ev))
                     (expedition_character_lockouts db)
              else expedition_character_lockouts db),
           queries_sent := Suc (queries_sent db)\<rparr>
      else db)"
  by (simp add: DeleteMembersLockout_def in_list_foldl QueryDatabase_delete_lockouts
      character_lockout_scope where_simps)

lemma DeletePendingLockouts_eq:
  "DeletePendingLockouts c db =
     db\<lparr>expedition_character_lockouts :=
          (if online db
           then filter (\<lambda>r. \<not> (cl_character_id r = unat c \<and> cl_is_pending r))
                  (expedition_character_lockouts db)
           else expedition_character_lockouts db),
        queries_sent := Suc (queries_sent db)\<rparr>"
  by (simp add: DeletePendingLockouts_def QueryDatabase_delete_lockouts
      character_lockout_scope where_simps)

lemma DeleteAllMembersPendingLockouts_eq:
  "DeleteAllMembersPendingLockouts ms db =
     (if ms \<noteq> [] then
        db\<lparr>expedition_character_lockouts :=
             (if online db
              then filter (\<lambda>r. \<not> (cl_character_id r \<in> (\<lambda>m. unat (char_id m)) ` set ms
                                   \<and> cl_is_pending r))
                     (expedition_character_lockouts db)
              else expedition_character_lockouts db),
           queries_sent := Suc (queries_sent db)\<rparr>
      else db)"
  by (simp add: DeleteAllMembersPendingLockouts_def in_list_foldl QueryDatabase_delete_lockouts
      character_lockout_scope where_simps)

subsection \<open>The upsert of character lockouts\<close>

lemma character_lockout_table_simps:
  "table_name character_lockout_table = ''expedition_character_lockouts''"
  "columns character_lockout_table = character_lockout_columns"
  "set_column character_lockout_table = character_lockout_set"
  "row_key character_lockout_table = character_lockout_key"
  "required character_lockout_table = [''character_id'', ''expire_time'', ''duration'',
      ''from_expedition_uuid'', ''expedition_name'', ''event_name'']"
  by (simp_all add: character_lockout_table_def)

lemma new_lockout_row:
  "new_row character_lockout_table n (blank_character_lockout db i)
     [''character_id'', ''expire_time'', ''duration'', ''from_expedition_uuid'',
      ''expedition_name'', ''event_name'', ''is_pending'']
     [number c, FROM_UNIXTIME (number (m_expire_time l)), number (m_duration l),
      quoted (m_expedition_uuid l), quoted (m_expedition_name l), quoted (m_event_name l),
      bool_literal p]
   = Some (lockout_row c l p)"
  by (simp add: new_row_def character_lockout_table_simps character_lockout_set_def
      blank_character_lockout_def lockout_row_def number_def quoted_def bool_literal_def
      bool_cell_def)

lemma assign_on_duplicate:
  "character_lockout_key r = character_lockout_key new \<Longrightarrow>
   assign character_lockout_table n (env_of character_lockout_table new)
     (on_duplicate replace_timer) r = Some (merge_lockout replace_timer r new)"
  by (simp add: on_duplicate_def merge_lockout_def character_lockout_table_simps
      character_lockout_set_def character_lockout_lookup character_lockout_key_def)

lemma those_map_if:
  "those (map (\<lambda>x. if P x then g x else Some x) xs) = Some (map (\<lambda>x. if P x then f x else x) xs)"
  if "\<And>x. P x \<Longrightarrow> g x = Some (f x)"
  using that by (induction xs) simp_all

lemma merge_lockout_key:
  "character_lockout_key (merge_lockout replace_timer r new) = character_lockout_key r"
  by (simp add: merge_lockout_def character_lockout_key_def)

lemma upsert_lockout_keys:
  "map character_lockout_key (upsert_lockout replace_timer rows new) =
     (if character_lockout_key new \<in> character_lockout_key ` set rows
      then map character_lockout_key rows
      else map character_lockout_key rows @ [character_lockout_key new])"
  by (auto simp add: upsert_lockout_def merge_lockout_key)

lemma upsert_lockout_distinct:
  "distinct (map character_lockout_key rows) \<Longrightarrow>
   distinct (map character_lockout_key (upsert_lockout replace_timer rows new))"
  by (simp add: upsert_lockout_keys)

lemma put_lockout_row:
  assumes "distinct (map character_lockout_key rows)"
  shows "put_row character_lockout_table n (Some (on_duplicate replace_timer)) rows new
         = Some (upsert_lockout replace_timer rows new)"
proof (cases "character_lockout_key new \<in> character_lockout_key ` set rows")
  case False
  then show ?thesis
    by (simp add: put_row_def upsert_lockout_def character_lockout_table_simps)
next
  case True
  have those: "those (map (\<lambda>r. if character_lockout_key r = character_lockout_key new
                   then assign character_lockout_table n (env_of character_lockout_table new)
                          (on_duplicate replace_timer) r
                   else Some r) rows)
        = Some (map (\<lambda>r. if character_lockout_key r = character_lockout_key new
                     then merge_lockout replace_timer r new else r) rows)"
    by (rule those_map_if) (simp add: assign_on_duplicate)
  have "distinct (map character_lockout_key (upsert_lockout replace_timer rows new))"
    using assms by (rule upsert_lockout_distinct)
  with True have "distinct (map character_lockout_key
      (map (\<lambda>r. if character_lockout_key r = character_lockout_key new
                     then merge_lockout replace_timer r new else r) rows))"
    by (simp add: upsert_lockout_def)
  with True those show ?thesis
    by (simp add: put_row_def upsert_lockout_def character_lockout_table_simps)
qed

lemma insert_all_lockouts:
  assumes "distinct (map character_lockout_key rows)"
  shows "insert_all character_lockout_table n (blank_character_lockout db)
     [''character_id'', ''expire_time'', ''duration'', ''from_expedition_uuid'',
      ''expedition_name'', ''event_name'', ''is_pending'']
     (Some (on_duplicate replace_timer)) i
     (map (\<lambda>l. [number c, FROM_UNIXTIME (number (m_expire_time l)), number (m_duration l),
                 quoted (m_expedition_uuid l), quoted (m_expedition_name l),
                 quoted (m_event_name l), bool_literal p]) ls)
     rows
   = Some (foldl (upsert_lockout replace_timer) rows (map (\<lambda>l. lockout_row c l p) ls))"
  using assms
proof (induction ls arbitrary: rows i)
  case Nil
  then show ?case by simp
next
  case (Cons l ls)
  from Cons.prems have "distinct (map character_lockout_key
      (upsert_lockout replace_timer rows (lockout_row c l p)))"
    by (rule upsert_lockout_distinct)
  then show ?case
    using Cons.prems by (simp add: new_lockout_row put_lockout_row Cons.IH)
qed

lemma on_duplicate_resolves:
  "list_all (\<lambda>a. fst a \<in> set (columns character_lockout_table)
               \<and> resolves (scope_of character_lockout_table) (snd a))
     (on_duplicate replace_timer)"
  by (simp add: on_duplicate_def character_lockout_table_simps character_lockout_columns_def
      character_lockout_scope)

lemma InsertCharacterLockouts_eq:
  assumes "unique_lockouts db"
  shows "InsertCharacterLockouts c ls replace_timer p db =
     (if ls \<noteq> [] then
        db\<lparr>expedition_character_lockouts :=
             (if online db
              then foldl (upsert_lockout replace_timer) (expedition_character_lockouts db)
                     (map (\<lambda>l. lockout_row c l p) ls)
              else expedition_character_lockouts db),
           queries_sent := Suc (queries_sent db)\<rparr>
      else db)"
  using assms
  by (simp add: InsertCharacterLockouts_def in_list_foldl QueryDatabase_def insert_into_def
      on_duplicate_resolves on_duplicate_def [symmetric] insert_all_lockouts unique_lockouts_def
      Let_def)









lemma sample_unique: "unique_lockouts sample_db"
  by (simp add: unique_lockouts_def sample_db_def character_lockout_key_def)

subsection \<open>The reads of active lockouts\<close>

lemma character_lockout_source:
  "source_env ''expedition_character_lockouts'' ''expedition_character_lockouts''
     (character_lockout_cells r) = env_of character_lockout_table r"
  by (simp add: source_env_def env_of_def table_columns_def character_lockout_table_def)

lemma character_lockout_from_scope:
  "from_scope [(''expedition_character_lockouts'', ''expedition_character_lockouts'')]
   = Some (scope_of character_lockout_table)"
  by (simp add: table_columns_def scope_of_def character_lockout_table_def)

lemma character_lockout_cells_of:
  "table_cells db ''expedition_character_lockouts''
   = map character_lockout_cells (expedition_character_lockouts db)"
  by (simp add: table_cells_def)

lemma select_character_lockouts:
  assumes "list_all (resolves (scope_of character_lockout_table)) items"
    and "resolves (scope_of character_lockout_table) w"
  shows "select_from db items ''expedition_character_lockouts''
           ''expedition_character_lockouts'' [] (Some w) None
         = Some (map (\<lambda>r. map (eval (now db) (env_of character_lockout_table r) []) items)
             (filter (\<lambda>r. truth (eval (now db) (env_of character_lockout_table r) [] w))
                (expedition_character_lockouts db)))"
  using assms
  by (simp add: select_from_def character_lockout_from_scope character_lockout_cells_of
      filter_map comp_def character_lockout_source del: from_scope.simps)

lemma LoadCharacterLockouts_eq:
  "LoadCharacterLockouts c db =
     (if online db
      then map timer_of
             (filter (\<lambda>r. cl_character_id r = unat c \<and> \<not> cl_is_pending r
                          \<and> now db < cl_expire_time r)
                (expedition_character_lockouts db))
      else [],
      db\<lparr>queries_sent := Suc (queries_sent db)\<rparr>)"
  by (simp add: LoadCharacterLockouts_def QueryDatabase_def Let_def no_result_def
      select_character_lockouts character_lockout_scope where_simps comp_def at_def timer_of_def)

lemma LoadCharacterLockouts_named_eq:
  "LoadCharacterLockouts_named c en db =
     (if online db
      then map timer_of
             (filter (\<lambda>r. cl_character_id r = unat c \<and> \<not> cl_is_pending r
                          \<and> now db < cl_expire_time r \<and> cl_expedition_name r = en)
                (expedition_character_lockouts db))
      else [],
      db\<lparr>queries_sent := Suc (queries_sent db)\<rparr>)"
  by (simp add: LoadCharacterLockouts_named_def QueryDatabase_def Let_def no_result_def
      select_character_lockouts character_lockout_scope where_simps comp_def at_def timer_of_def
      cong: map_cong)

subsection \<open>The rows of the create request\<close>











subsection \<open>What a read cannot return\<close>

lemma unique_lockouts_same_key:
  assumes "unique_lockouts db"
    and "r \<in> set (expedition_character_lockouts db)"
    and "p \<in> set (expedition_character_lockouts db)"
    and "cl_character_id r = cl_character_id p"
    and "cl_expedition_name r = cl_expedition_name p"
    and "cl_event_name r = cl_event_name p"
  shows "r = p"
proof -
  from assms(1) have "inj_on character_lockout_key (set (expedition_character_lockouts db))"
    by (simp add: unique_lockouts_def distinct_map)
  moreover from assms(4-6) have "character_lockout_key r = character_lockout_key p"
    by (simp add: character_lockout_key_def)
  ultimately show ?thesis using assms(2,3) by (rule inj_onD)
qed

lemma timer_of_names:
  "m_expedition_name (timer_of r) = cl_expedition_name r"
  "m_event_name (timer_of r) = cl_event_name r"
  "m_expedition_uuid (timer_of r) = cl_from_expedition_uuid r"
  by (simp_all add: timer_of_def)

lemma loaded_from_row:
  assumes "t \<in> set (fst (LoadCharacterLockouts c db))"
  shows "\<exists>r \<in> set (expedition_character_lockouts db).
           t = timer_of r \<and> cl_character_id r = unat c \<and> \<not> cl_is_pending r
           \<and> now db < cl_expire_time r"
  using assms by (auto simp add: LoadCharacterLockouts_eq split: if_splits)

lemma loaded_named_from_row:
  assumes "t \<in> set (fst (LoadCharacterLockouts_named c en db))"
  shows "\<exists>r \<in> set (expedition_character_lockouts db).
           t = timer_of r \<and> cl_character_id r = unat c \<and> cl_expedition_name r = en
           \<and> \<not> cl_is_pending r \<and> now db < cl_expire_time r"
  using assms by (auto simp add: LoadCharacterLockouts_named_eq split: if_splits)


lemma hidden_from_load:
  assumes "unique_lockouts db"
    and "p \<in> set (expedition_character_lockouts db)"
    and "cl_character_id p = unat c"
    and "cl_is_pending p \<or> cl_expire_time p \<le> now db"
    and "t \<in> set (fst (LoadCharacterLockouts c db))"
  shows "\<not> (m_expedition_name t = cl_expedition_name p \<and> m_event_name t = cl_event_name p)"
proof
  assume same: "m_expedition_name t = cl_expedition_name p \<and> m_event_name t = cl_event_name p"
  from loaded_from_row [OF assms(5)] obtain r
    where r: "r \<in> set (expedition_character_lockouts db)" "t = timer_of r"
      "cl_character_id r = unat c" "\<not> cl_is_pending r" "now db < cl_expire_time r"
    by blast
  from same r(2) have "cl_expedition_name r = cl_expedition_name p"
    "cl_event_name r = cl_event_name p"
    by (simp_all add: timer_of_names)
  with assms(1,2,3) r(1,3) have "r = p"
    by (intro unique_lockouts_same_key [of db]) simp_all
  with r(4,5) assms(4) show False by auto
qed

lemma hidden_from_load_named:
  assumes "unique_lockouts db"
    and "p \<in> set (expedition_character_lockouts db)"
    and "cl_character_id p = unat c"
    and "cl_is_pending p \<or> cl_expire_time p \<le> now db"
    and "t \<in> set (fst (LoadCharacterLockouts_named c (cl_expedition_name p) db))"
  shows "m_event_name t \<noteq> cl_event_name p"
proof
  assume same: "m_event_name t = cl_event_name p"
  from loaded_named_from_row [OF assms(5)] obtain r
    where r: "r \<in> set (expedition_character_lockouts db)" "t = timer_of r"
      "cl_character_id r = unat c" "cl_expedition_name r = cl_expedition_name p"
      "\<not> cl_is_pending r" "now db < cl_expire_time r"
    by blast
  from same r(2) have "cl_event_name r = cl_event_name p"
    by (simp add: timer_of_names)
  with assms(1,2,3) r(1,3,4) have "r = p"
    by (intro unique_lockouts_same_key [of db]) simp_all
  with r(5,6) assms(4) show False by auto
qed


lemma sample_rows:
  "boss1_row \<in> set (expedition_character_lockouts sample_db)"
  "boss2_row \<in> set (expedition_character_lockouts sample_db)"
  "boss3_row \<in> set (expedition_character_lockouts sample_db)"
  by (simp_all add: sample_db_def boss1_row_def boss2_row_def boss3_row_def)

subsection \<open>Promotion\<close>

lemma assign_promote:
  "assign character_lockout_table n v [(''is_pending'', FALSE)] r = Some (r\<lparr>cl_is_pending := False\<rparr>)"
  by (simp add: character_lockout_table_simps character_lockout_set_def)

lemma promote_keys:
  "map character_lockout_key (map (\<lambda>r. if P r then r\<lparr>cl_is_pending := False\<rparr> else r) rows)
   = map character_lockout_key rows"
  by (induction rows) (simp_all add: character_lockout_key_def)

lemma promote_keys_comp:
  "map (character_lockout_key \<circ> (\<lambda>r. if P r then r\<lparr>cl_is_pending := False\<rparr> else r)) rows
   = map character_lockout_key rows"
  by (induction rows) (simp_all add: character_lockout_key_def)

lemma AssignPendingLockouts_eq:
  "AssignPendingLockouts c en db =
     db\<lparr>expedition_character_lockouts :=
          (if online db \<and> unique_lockouts db
           then map (\<lambda>r. if cl_character_id r = unat c \<and> cl_is_pending r
                             \<and> cl_expedition_name r = en
                          then r\<lparr>cl_is_pending := False\<rparr> else r)
                  (expedition_character_lockouts db)
           else expedition_character_lockouts db),
        queries_sent := Suc (queries_sent db)\<rparr>"
proof -
  have those: "those (map (\<lambda>r. if truth (eval (now db) (env_of character_lockout_table r) []
            (Both (Both (Equals (Column ''character_id'') (number c))
                        (Equals (Column ''is_pending'') TRUE))
                  (Equals (Column ''expedition_name'') (quoted en))))
          then assign character_lockout_table (now db) [] [(''is_pending'', FALSE)] r
          else Some r) (expedition_character_lockouts db))
     = Some (map (\<lambda>r. if cl_character_id r = unat c \<and> cl_is_pending r
                             \<and> cl_expedition_name r = en
                          then r\<lparr>cl_is_pending := False\<rparr> else r)
                  (expedition_character_lockouts db))"
  proof -
    have cond: "\<And>r. truth (eval (now db) (env_of character_lockout_table r) []
            (Both (Both (Equals (Column ''character_id'') (number c))
                        (Equals (Column ''is_pending'') TRUE))
                  (Equals (Column ''expedition_name'') (quoted en))))
        = (cl_character_id r = unat c \<and> cl_is_pending r \<and> cl_expedition_name r = en)"
      by (simp add: where_simps)
    show ?thesis
      unfolding cond by (rule those_map_if) (simp add: assign_promote del: assign.simps)
  qed
  have update: "update_where character_lockout_table (now db) [(''is_pending'', FALSE)]
            (Both (Both (Equals (Column ''character_id'') (number c))
                        (Equals (Column ''is_pending'') TRUE))
                  (Equals (Column ''expedition_name'') (quoted en)))
            (expedition_character_lockouts db)
     = (if unique_lockouts db
        then Some (map (\<lambda>r. if cl_character_id r = unat c \<and> cl_is_pending r
                             \<and> cl_expedition_name r = en
                          then r\<lparr>cl_is_pending := False\<rparr> else r)
                  (expedition_character_lockouts db))
        else None)"
    unfolding update_where_def those
    by (simp add: character_lockout_scope character_lockout_table_simps
        character_lockout_columns_def number_def quoted_def promote_keys promote_keys_comp unique_lockouts_def
        del: assign.simps)
  show ?thesis
    by (simp add: AssignPendingLockouts_def QueryDatabase_def Let_def update no_result_def
        del: One_nat_def)
qed

lemma timer_of_promoted: "timer_of (r\<lparr>cl_is_pending := False\<rparr>) = timer_of r"
  by (simp add: timer_of_def)

lemma promoted_rows:
  assumes "online db" "unique_lockouts db"
  shows "expedition_character_lockouts (AssignPendingLockouts c en db) =
     map (\<lambda>r. if cl_character_id r = unat c \<and> cl_is_pending r \<and> cl_expedition_name r = en
              then r\<lparr>cl_is_pending := False\<rparr> else r) (expedition_character_lockouts db)"
    and "now (AssignPendingLockouts c en db) = now db"
    and "online (AssignPendingLockouts c en db)"
  using assms by (simp_all add: AssignPendingLockouts_eq)

lemma promoted_row_there:
  assumes "online db" "unique_lockouts db"
    and "r \<in> set (expedition_character_lockouts db)"
    and "cl_character_id r = unat c" "cl_expedition_name r = en" "cl_is_pending r"
  shows "r\<lparr>cl_is_pending := False\<rparr>
           \<in> set (expedition_character_lockouts (AssignPendingLockouts c en db))"
proof -
  let ?promote = "\<lambda>r. if cl_character_id r = unat c \<and> cl_is_pending r \<and> cl_expedition_name r = en
                      then r\<lparr>cl_is_pending := False\<rparr> else r"
  from assms(3) have "?promote r \<in> ?promote ` set (expedition_character_lockouts db)"
    by (rule imageI)
  moreover from assms(4-6) have "?promote r = r\<lparr>cl_is_pending := False\<rparr>" by simp
  ultimately show ?thesis
    by (simp only: promoted_rows(1) [OF assms(1,2)] set_map)
qed

lemma other_row_there:
  assumes "online db" "unique_lockouts db"
    and "r \<in> set (expedition_character_lockouts db)"
    and "\<not> (cl_character_id r = unat c \<and> cl_expedition_name r = en \<and> cl_is_pending r)"
  shows "r \<in> set (expedition_character_lockouts (AssignPendingLockouts c en db))"
proof -
  let ?promote = "\<lambda>r. if cl_character_id r = unat c \<and> cl_is_pending r \<and> cl_expedition_name r = en
                      then r\<lparr>cl_is_pending := False\<rparr> else r"
  from assms(3) have "?promote r \<in> ?promote ` set (expedition_character_lockouts db)"
    by (rule imageI)
  moreover from assms(4) have "?promote r = r" by auto
  ultimately show ?thesis
    by (simp only: promoted_rows(1) [OF assms(1,2)] set_map)
qed

lemma promoted_row_cleared:
  assumes "online db" "unique_lockouts db"
    and "r \<in> set (expedition_character_lockouts (AssignPendingLockouts c en db))"
    and "cl_character_id r = unat c" "cl_expedition_name r = en"
  shows "\<not> cl_is_pending r"
proof -
  from assms(3) obtain x where "x \<in> set (expedition_character_lockouts db)"
    and "r = (if cl_character_id x = unat c \<and> cl_is_pending x \<and> cl_expedition_name x = en
              then x\<lparr>cl_is_pending := False\<rparr> else x)"
    unfolding promoted_rows(1) [OF assms(1,2)] set_map by (rule imageE)
  with assms(4,5) show ?thesis by (cases "cl_is_pending x") (auto split: if_splits)
qed

lemma active_row_loaded:
  assumes "online db"
    and "r \<in> set (expedition_character_lockouts db)"
    and "cl_character_id r = unat c" "\<not> cl_is_pending r" "now db < cl_expire_time r"
  shows "timer_of r \<in> set (fst (LoadCharacterLockouts c db))"
    and "timer_of r \<in> set (fst (LoadCharacterLockouts_named c (cl_expedition_name r) db))"
  using assms by (simp_all add: LoadCharacterLockouts_eq LoadCharacterLockouts_named_eq)

lemma promoted_row_loaded:
  assumes "online db" "unique_lockouts db"
    and "r \<in> set (expedition_character_lockouts db)"
    and "cl_character_id r = unat c" "cl_expedition_name r = en" "cl_is_pending r"
    and "now db < cl_expire_time r"
  shows "timer_of r \<in> set (fst (LoadCharacterLockouts c (AssignPendingLockouts c en db)))"
    and "timer_of r \<in> set (fst (LoadCharacterLockouts_named c en (AssignPendingLockouts c en db)))"
proof -
  let ?r = "r\<lparr>cl_is_pending := False\<rparr>"
  let ?db' = "AssignPendingLockouts c en db"
  have there: "?r \<in> set (expedition_character_lockouts ?db')"
    using assms(1-6) by (rule promoted_row_there)
  have up: "online ?db'" using assms(1,2) by (rule promoted_rows(3))
  have who: "cl_character_id ?r = unat c" using assms(4) by simp
  have active: "\<not> cl_is_pending ?r" by simp
  have fresh: "now ?db' < cl_expire_time ?r"
    using assms(7) by (simp add: promoted_rows(2) [OF assms(1,2)])
  have named: "cl_expedition_name ?r = en" using assms(5) by simp
  from active_row_loaded(1) [OF up there who active fresh]
  show "timer_of r \<in> set (fst (LoadCharacterLockouts c ?db'))"
    by (simp only: timer_of_promoted)
  from active_row_loaded(2) [OF up there who active fresh]
  show "timer_of r \<in> set (fst (LoadCharacterLockouts_named c en ?db'))"
    by (simp only: timer_of_promoted named)
qed

subsection \<open>Creating an expedition record\<close>





subsection \<open>Adding members\<close>

lemma member_table_simps:
  "table_name member_table = ''expedition_members''"
  "columns member_table = member_columns"
  "set_column member_table = member_set"
  "row_key member_table = member_key"
  "required member_table = [''expedition_id'', ''character_id'']"
  by (simp_all add: member_table_def)

lemma new_member_row:
  "new_row member_table n (blank_member i) [''expedition_id'', ''character_id'']
     [number e, number c]
   = Some \<lparr>em_expedition_id = unat e, em_character_id = unat c\<rparr>"
  by (simp add: new_row_def member_table_simps member_set_def blank_member_def number_def)

lemma member_scope:
  "scope_of member_table =
     [(''expedition_members'', ''expedition_id''), (''expedition_members'', ''character_id'')]"
  by (simp add: scope_of_def member_table_def member_columns_def)

lemma member_lookup:
  "lookup_column (env_of member_table r) ''character_id'' = INTEGER (em_character_id r)"
  by (simp add: env_of_def member_table_def member_columns_def member_cells_def row_env_def
      lookup_column_def)

lemma member_keep:
  "member_key r = member_key new \<Longrightarrow>
   assign member_table n (env_of member_table new) [(''character_id'', VALUES ''character_id'')] r
   = Some r"
  by (simp add: member_table_simps member_set_def member_lookup member_key_def)

lemma put_member_row:
  "put_row member_table n (Some [(''character_id'', VALUES ''character_id'')]) rows new
   = (if member_key new \<notin> member_key ` set rows then Some (rows @ [new])
      else if distinct (map member_key rows) then Some rows else None)"
proof -
  have "those (map (\<lambda>r. if member_key r = member_key new
                   then assign member_table n (env_of member_table new)
                          [(''character_id'', VALUES ''character_id'')] r
                   else Some r) rows)
        = Some (map (\<lambda>r. if member_key r = member_key new then r else r) rows)"
    by (rule those_map_if) (simp add: member_keep del: assign.simps)
  then show ?thesis
    by (simp add: put_row_def member_table_simps del: assign.simps)
qed

lemma InsertMember_eq:
  "InsertMember e c db =
     db\<lparr>expedition_members :=
          (if online db \<and> unat c \<notin> em_character_id ` set (expedition_members db)
           then expedition_members db @ [\<lparr>em_expedition_id = unat e, em_character_id = unat c\<rparr>]
           else expedition_members db),
        queries_sent := Suc (queries_sent db)\<rparr>"
proof -
  have keys: "member_key ` set (expedition_members db) = em_character_id ` set (expedition_members db)"
    by (rule image_cong) (simp_all add: member_key_def)
  have "insert_into member_table n blank_member [''expedition_id'', ''character_id'']
          [[number e, number c]] (Some [(''character_id'', VALUES ''character_id'')])
          (expedition_members db)
        = (if unat c \<notin> em_character_id ` set (expedition_members db)
           then Some (expedition_members db @
                   [\<lparr>em_expedition_id = unat e, em_character_id = unat c\<rparr>])
           else if distinct (map member_key (expedition_members db))
                then Some (expedition_members db) else None)" for n
    by (simp add: insert_into_def new_member_row put_member_row member_table_simps
        member_columns_def member_scope keys member_key_def del: One_nat_def)
  then show ?thesis
    by (simp add: InsertMember_def QueryDatabase_def Let_def no_result_def
        del: insert_all.simps)
qed

lemma insert_all_members_plain:
  "insert_all member_table n blank_member [''expedition_id'', ''character_id''] None i
     (map (\<lambda>m. [number e, number (char_id m)]) ms) rows
   = (if distinct (map (\<lambda>m. unat (char_id m)) ms)
         \<and> (\<lambda>m. unat (char_id m)) ` set ms \<inter> em_character_id ` set rows = {}
      then Some (rows @ map (\<lambda>m. \<lparr>em_expedition_id = unat e,
                                   em_character_id = unat (char_id m)\<rparr>) ms)
      else None)"
proof (induction ms arbitrary: rows i)
  case Nil
  then show ?case by simp
next
  case (Cons m ms)
  have keys: "member_key ` set rows = em_character_id ` set rows" for rows
    by (rule image_cong) (simp_all add: member_key_def)
  show ?case
  proof (cases "unat (char_id m) \<in> em_character_id ` set rows")
    case True
    then show ?thesis
      by (simp add: new_member_row put_row_def member_table_simps keys member_key_def)
  next
    case False
    then have "put_row member_table n None rows
        \<lparr>em_expedition_id = unat e, em_character_id = unat (char_id m)\<rparr>
      = Some (rows @ [\<lparr>em_expedition_id = unat e, em_character_id = unat (char_id m)\<rparr>])"
      by (simp add: put_row_def member_table_simps keys member_key_def)
    with False show ?thesis
      by (auto simp add: new_member_row Cons.IH image_Un)
  qed
qed

lemma InsertMembers_eq:
  "InsertMembers e ms db =
     (if ms \<noteq> [] then
        db\<lparr>expedition_members :=
             (if online db \<and> distinct (map (\<lambda>m. unat (char_id m)) ms)
                 \<and> (\<lambda>m. unat (char_id m)) ` set ms
                     \<inter> em_character_id ` set (expedition_members db) = {}
              then expedition_members db @
                     map (\<lambda>m. \<lparr>em_expedition_id = unat e,
                               em_character_id = unat (char_id m)\<rparr>) ms
              else expedition_members db),
           queries_sent := Suc (queries_sent db)\<rparr>
      else db)"
  by (simp add: InsertMembers_def in_list_foldl QueryDatabase_def Let_def no_result_def
      insert_into_def insert_all_members_plain del: insert_all.simps)

subsection \<open>The leader query\<close>

lemma leader_query_rejected:
  "select_from db items ''expedition_details'' ''expedition_details''
     [Join INNER_JOIN ''character_data'' ''character_data'' c]
     (Some (Equals (Column ''expedition_id'') x)) ob = None"
  by (simp add: select_from_def table_columns_def details_columns_def character_columns_def)

lemma GetExpeditionLeader_eq:
  "GetExpeditionLeader expedition_id db
     = (no_member, db\<lparr>queries_sent := Suc (queries_sent db)\<rparr>)"
  by (simp add: GetExpeditionLeader_def QueryDatabase_def leader_query_rejected no_result_def
      Let_def)

subsection \<open>A lockout row of character 0\<close>

lemma zero_db_rows:
  "expedition_character_lockouts zero_db = expedition_character_lockouts sample_db @ [zero_row]"
proof -
  have "character_lockout_key (lockout_row 0 refresh_boss1 False)
          \<notin> character_lockout_key ` set (expedition_character_lockouts sample_db)"
    by (simp add: lockout_row_def refresh_boss1_def sample_db_def character_lockout_key_def)
  moreover have "lockout_row 0 refresh_boss1 False = zero_row"
    by (simp add: lockout_row_def refresh_boss1_def zero_row_def)
  moreover have "online sample_db" by (simp add: sample_db_def)
  ultimately show ?thesis
    by (simp add: zero_db_def InsertCharacterLockouts_eq [OF sample_unique] upsert_lockout_def)
qed

lemma zero_db_rest: "online zero_db"
proof -
  have "online sample_db" by (simp add: sample_db_def)
  then show ?thesis
    by (simp add: zero_db_def InsertCharacterLockouts_eq [OF sample_unique])
qed

lemma filter_none: "(\<forall>x \<in> set xs. P x) \<Longrightarrow> filter P xs = xs"
  by (induction xs) simp_all

subsection \<open>Writes that keep every row\<close>

lemma new_member_lockout_row:
  "new_row character_lockout_table n (blank_character_lockout db i)
     [''character_id'', ''expire_time'', ''duration'', ''from_expedition_uuid'',
      ''expedition_name'', ''event_name'']
     [number c, FROM_UNIXTIME (number (m_expire_time l)), number (m_duration l),
      quoted (m_expedition_uuid l), quoted (m_expedition_name l), quoted (m_event_name l)]
   = Some (lockout_row c l (default_is_pending db))"
  by (simp add: new_row_def character_lockout_table_simps character_lockout_set_def
      blank_character_lockout_def lockout_row_def number_def quoted_def)

lemma insert_all_member_lockouts:
  assumes "distinct (map character_lockout_key rows)"
  shows "insert_all character_lockout_table n (blank_character_lockout db)
     [''character_id'', ''expire_time'', ''duration'', ''from_expedition_uuid'',
      ''expedition_name'', ''event_name'']
     (Some (on_duplicate True)) i
     (map (\<lambda>m. [number (char_id m), FROM_UNIXTIME (number (m_expire_time l)),
                 number (m_duration l), quoted (m_expedition_uuid l),
                 quoted (m_expedition_name l), quoted (m_event_name l)]) ms)
     rows
   = Some (foldl (upsert_lockout True) rows
             (map (\<lambda>m. lockout_row (char_id m) l (default_is_pending db)) ms))"
  using assms
proof (induction ms arbitrary: rows i)
  case Nil
  then show ?case by simp
next
  case (Cons m ms)
  from Cons.prems have "distinct (map character_lockout_key
      (upsert_lockout True rows (lockout_row (char_id m) l (default_is_pending db))))"
    by (rule upsert_lockout_distinct)
  then show ?case
    using Cons.prems by (simp add: new_member_lockout_row put_lockout_row Cons.IH)
qed

lemma InsertMembersLockout_eq:
  assumes "unique_lockouts db"
  shows "InsertMembersLockout ms l db =
     (if ms \<noteq> [] then
        db\<lparr>expedition_character_lockouts :=
             (if online db
              then foldl (upsert_lockout True) (expedition_character_lockouts db)
                     (map (\<lambda>m. lockout_row (char_id m) l (default_is_pending db)) ms)
              else expedition_character_lockouts db),
           queries_sent := Suc (queries_sent db)\<rparr>
      else db)"
  using assms on_duplicate_resolves [of True]
  by (simp add: InsertMembersLockout_def in_list_foldl QueryDatabase_def insert_into_def
      insert_all_member_lockouts [unfolded on_duplicate_def, simplified]
      on_duplicate_def unique_lockouts_def Let_def del: insert_all.simps)

lemma upsert_lockout_keeps_key:
  "k \<in> character_lockout_key ` set rows \<Longrightarrow>
   k \<in> character_lockout_key ` set (upsert_lockout replace_timer rows new)"
  using upsert_lockout_keys [of replace_timer rows new]
  by (metis Un_iff list.set_map set_append)

lemma foldl_upsert_keeps_key:
  "k \<in> character_lockout_key ` set rows \<Longrightarrow>
   k \<in> character_lockout_key ` set (foldl (upsert_lockout replace_timer) rows news)"
  by (induction news arbitrary: rows) (simp_all add: upsert_lockout_keeps_key)

lemma writes_keep_key:
  assumes "p \<in> set (expedition_character_lockouts db)"
  shows "character_lockout_key p \<in> character_lockout_key `
           set (expedition_character_lockouts (AssignPendingLockouts c en db))"
    and "unique_lockouts db \<Longrightarrow> character_lockout_key p \<in> character_lockout_key `
           set (expedition_character_lockouts (InsertCharacterLockouts c ls replace_timer pend db))"
    and "unique_lockouts db \<Longrightarrow> character_lockout_key p \<in> character_lockout_key `
           set (expedition_character_lockouts (InsertMembersLockout ms l db))"
proof -
  from assms have here: "character_lockout_key p
      \<in> character_lockout_key ` set (expedition_character_lockouts db)"
    by (rule imageI)
  have "map character_lockout_key
          (expedition_character_lockouts (AssignPendingLockouts c en db))
        = map character_lockout_key (expedition_character_lockouts db)"
    by (simp add: AssignPendingLockouts_eq promote_keys promote_keys_comp)
  then have "character_lockout_key `
           set (expedition_character_lockouts (AssignPendingLockouts c en db))
        = character_lockout_key ` set (expedition_character_lockouts db)"
    by (metis list.set_map)
  with here show "character_lockout_key p \<in> character_lockout_key `
           set (expedition_character_lockouts (AssignPendingLockouts c en db))"
    by simp
  {
    assume unique: "unique_lockouts db"
    from here show "character_lockout_key p \<in> character_lockout_key `
           set (expedition_character_lockouts (InsertCharacterLockouts c ls replace_timer pend db))"
      by (simp add: InsertCharacterLockouts_eq [OF unique] foldl_upsert_keeps_key)
    from here show "character_lockout_key p \<in> character_lockout_key `
           set (expedition_character_lockouts (InsertMembersLockout ms l db))"
      by (simp add: InsertMembersLockout_eq [OF unique] foldl_upsert_keeps_key)
  }
qed

section \<open>Writing a lockout whose triple exists\<close>



section \<open>Pending rows and the reads of active lockouts\<close>



section \<open>Promoting pending lockouts\<close>

text \<open>
  C3. \<open>AssignPendingLockouts\<close> is an update in place: the table afterwards has the
  same keys at the same positions, so no row is added and a triple that was held once
  is held once; the unique index holds after if it held before. When the statement
  reaches the server (and the index holds), no row of the character and expedition name
  is pending afterwards; every row of them that was pending is there with the flag
  cleared, and if it has not expired both reads of active lockouts return its timer;
  every other row is there unchanged.
\<close>

theorem promotion_updates_in_place:
  "map character_lockout_key (expedition_character_lockouts (AssignPendingLockouts c en db))
     = map character_lockout_key (expedition_character_lockouts db)
   \<and> (unique_lockouts db \<longrightarrow> unique_lockouts (AssignPendingLockouts c en db))
   \<and> (online db \<and> unique_lockouts db \<longrightarrow>
        (\<forall>r \<in> set (expedition_character_lockouts (AssignPendingLockouts c en db)).
           cl_character_id r = unat c \<and> cl_expedition_name r = en \<longrightarrow> \<not> cl_is_pending r)
      \<and> (\<forall>r \<in> set (expedition_character_lockouts db).
           cl_character_id r = unat c \<and> cl_expedition_name r = en \<and> cl_is_pending r \<longrightarrow>
             r\<lparr>cl_is_pending := False\<rparr>
               \<in> set (expedition_character_lockouts (AssignPendingLockouts c en db))
           \<and> (now db < cl_expire_time r \<longrightarrow>
                timer_of r \<in> set (fst (LoadCharacterLockouts c (AssignPendingLockouts c en db)))
              \<and> timer_of r
                  \<in> set (fst (LoadCharacterLockouts_named c en (AssignPendingLockouts c en db)))))
      \<and> (\<forall>r \<in> set (expedition_character_lockouts db).
           \<not> (cl_character_id r = unat c \<and> cl_expedition_name r = en \<and> cl_is_pending r) \<longrightarrow>
             r \<in> set (expedition_character_lockouts (AssignPendingLockouts c en db))))"
proof (intro conjI impI ballI)
  show keys: "map character_lockout_key (expedition_character_lockouts (AssignPendingLockouts c en db))
     = map character_lockout_key (expedition_character_lockouts db)"
    by (simp add: AssignPendingLockouts_eq promote_keys promote_keys_comp)
  assume "unique_lockouts db"
  with keys show "unique_lockouts (AssignPendingLockouts c en db)"
    by (simp add: unique_lockouts_def)
next
  fix r
  assume "online db \<and> unique_lockouts db"
    and "r \<in> set (expedition_character_lockouts (AssignPendingLockouts c en db))"
    and "cl_character_id r = unat c \<and> cl_expedition_name r = en"
  then show "\<not> cl_is_pending r"
    by (intro promoted_row_cleared [of db r c en]) simp_all
next
  fix r
  assume "online db \<and> unique_lockouts db"
    and "r \<in> set (expedition_character_lockouts db)"
    and "cl_character_id r = unat c \<and> cl_expedition_name r = en \<and> cl_is_pending r"
  then show "r\<lparr>cl_is_pending := False\<rparr>
               \<in> set (expedition_character_lockouts (AssignPendingLockouts c en db))"
    by (intro promoted_row_there) simp_all
next
  fix r
  assume "online db \<and> unique_lockouts db"
    and "r \<in> set (expedition_character_lockouts db)"
    and "cl_character_id r = unat c \<and> cl_expedition_name r = en \<and> cl_is_pending r"
    and "now db < cl_expire_time r"
  then show "timer_of r \<in> set (fst (LoadCharacterLockouts c (AssignPendingLockouts c en db)))"
    by (intro promoted_row_loaded(1)) simp_all
next
  fix r
  assume "online db \<and> unique_lockouts db"
    and "r \<in> set (expedition_character_lockouts db)"
    and "cl_character_id r = unat c \<and> cl_expedition_name r = en \<and> cl_is_pending r"
    and "now db < cl_expire_time r"
  then show "timer_of r
      \<in> set (fst (LoadCharacterLockouts_named c en (AssignPendingLockouts c en db)))"
    by (intro promoted_row_loaded(2)) simp_all
next
  fix r
  assume "online db \<and> unique_lockouts db"
    and "r \<in> set (expedition_character_lockouts db)"
    and "\<not> (cl_character_id r = unat c \<and> cl_expedition_name r = en \<and> cl_is_pending r)"
  then show "r \<in> set (expedition_character_lockouts (AssignPendingLockouts c en db))"
    by (intro other_row_there) simp_all
qed

theorem promotion_updates_in_place_witness:
  "online sample_db
   \<and> unique_lockouts sample_db
   \<and> boss3_row \<in> set (expedition_character_lockouts sample_db)
   \<and> cl_is_pending boss3_row
   \<and> map character_lockout_key
        (expedition_character_lockouts (AssignPendingLockouts 42 ''Solteris'' sample_db))
      = [(42, ''Solteris'', ''boss1''), (42, ''Solteris'', ''boss2''), (42, ''Solteris'', ''boss3'')]
   \<and> boss3_row\<lparr>cl_is_pending := False\<rparr>
        \<in> set (expedition_character_lockouts (AssignPendingLockouts 42 ''Solteris'' sample_db))
   \<and> timer_of boss3_row
        \<in> set (fst (LoadCharacterLockouts_named 42 ''Solteris''
                      (AssignPendingLockouts 42 ''Solteris'' sample_db)))"
proof -
  have up: "online sample_db" and clock: "now sample_db = 100"
    by (simp_all add: sample_db_def)
  have three: "cl_character_id boss3_row = unat (42 :: 32 word)" "cl_is_pending boss3_row"
    "cl_expire_time boss3_row = 500" "cl_expedition_name boss3_row = ''Solteris''"
    by (simp_all add: boss3_row_def)
  have keys: "map character_lockout_key (expedition_character_lockouts sample_db)
      = [(42, ''Solteris'', ''boss1''), (42, ''Solteris'', ''boss2''), (42, ''Solteris'', ''boss3'')]"
    by (simp add: sample_db_def character_lockout_key_def)
  note fact = promotion_updates_in_place [of 42 "''Solteris''" sample_db]
  from fact have same: "map character_lockout_key
        (expedition_character_lockouts (AssignPendingLockouts 42 ''Solteris'' sample_db))
        = map character_lockout_key (expedition_character_lockouts sample_db)"
    by (rule conjunct1)
  from fact up sample_unique
  have "\<forall>r \<in> set (expedition_character_lockouts sample_db).
           cl_character_id r = unat (42 :: 32 word) \<and> cl_expedition_name r = ''Solteris''
           \<and> cl_is_pending r \<longrightarrow>
             r\<lparr>cl_is_pending := False\<rparr>
               \<in> set (expedition_character_lockouts (AssignPendingLockouts 42 ''Solteris'' sample_db))
           \<and> (now sample_db < cl_expire_time r \<longrightarrow>
                timer_of r \<in> set (fst (LoadCharacterLockouts 42
                    (AssignPendingLockouts 42 ''Solteris'' sample_db)))
              \<and> timer_of r
                  \<in> set (fst (LoadCharacterLockouts_named 42 ''Solteris''
                      (AssignPendingLockouts 42 ''Solteris'' sample_db))))"
    by blast
  from bspec [OF this sample_rows(3)] three clock
  have "boss3_row\<lparr>cl_is_pending := False\<rparr>
        \<in> set (expedition_character_lockouts (AssignPendingLockouts 42 ''Solteris'' sample_db))"
    and "timer_of boss3_row
        \<in> set (fst (LoadCharacterLockouts_named 42 ''Solteris''
                      (AssignPendingLockouts 42 ''Solteris'' sample_db)))"
    by simp_all
  with up sample_unique sample_rows(3) three(2) keys same show ?thesis by simp
qed

section \<open>Adding members that are already on the roster\<close>

text \<open>
  C4, at the failing input. Character 7 is a member of expedition 1. \<open>InsertMembers\<close>
  for expedition 1 with the members 7 and 8 is a plain multi-row \<^verbatim>\<open>INSERT\<close>: the row of
  character 7 meets its key, the statement fails, and character 8 is not added either.
  The single-member form, whose statement ends in \<^verbatim>\<open>ON DUPLICATE KEY UPDATE\<close>, adds
  character 8 after character 7 was re-added.
\<close>

theorem InsertMembers_rejects_whole_batch:
  "expedition_members sample_db = [\<lparr>em_expedition_id = 1, em_character_id = 7\<rparr>]
   \<and> online sample_db
   \<and> expedition_members
        (InsertMembers 1 [\<lparr>char_id = 7, name = ''Bob''\<rparr>, \<lparr>char_id = 8, name = ''Cy''\<rparr>] sample_db)
      = [\<lparr>em_expedition_id = 1, em_character_id = 7\<rparr>]
   \<and> expedition_members (InsertMember 1 8 (InsertMember 1 7 sample_db))
      = [\<lparr>em_expedition_id = 1, em_character_id = 7\<rparr>,
         \<lparr>em_expedition_id = 1, em_character_id = 8\<rparr>]"
  by (simp add: InsertMembers_eq InsertMember_eq sample_db_def)

section \<open>Looking up the leader\<close>

text \<open>
  C5, at the failing input. Expedition 1 has leader 7, and character 7 is ``Bob'' in the
  character directory, yet \<open>GetExpeditionLeader 1\<close> returns the member with id 0 and no
  name: the \<^verbatim>\<open>WHERE\<close> clause names a column \<^verbatim>\<open>expedition_id\<close>, which neither
  \<^verbatim>\<open>expedition_details\<close> (whose id column is \<^verbatim>\<open>id\<close>) nor \<^verbatim>\<open>character_data\<close> has, so the
  server rejects the query for every expedition id.
\<close>

theorem GetExpeditionLeader_misses_leader:
  "\<lparr>ed_id = 1, ed_uuid = ''u1'', ed_instance_id = 5, ed_expedition_name = ''Solteris'',
     ed_leader_id = 7, ed_min_players = 1, ed_max_players = 6,
     ed_add_replay_on_join = True, ed_is_locked = False\<rparr> \<in> set (expedition_details sample_db)
   \<and> \<lparr>cd_id = 7, cd_name = ''Bob''\<rparr> \<in> set (character_data sample_db)
   \<and> online sample_db
   \<and> fst (GetExpeditionLeader 1 sample_db) = \<lparr>char_id = 0, name = []\<rparr>"
  by (simp add: GetExpeditionLeader_eq no_member_def sample_db_def)

section \<open>Creating an expedition record\<close>



section \<open>The expiry boundary\<close>

text \<open>
  C7. When the query reaches the server, \<open>LoadCharacterLockouts\<close> (both forms) returns
  the timers of exactly the rows of the character that are not pending and whose
  expiration is strictly after the server's clock: such a row is returned, and on a table
  whose unique index holds a row expiring before the clock or exactly at it is not (no
  timer with its expedition and event name is returned).
\<close>

theorem active_reads_expiry_boundary:
  assumes "online db"
  shows "fst (LoadCharacterLockouts c db) =
           map timer_of (filter (\<lambda>r. cl_character_id r = unat c \<and> \<not> cl_is_pending r
                                    \<and> now db < cl_expire_time r)
                           (expedition_character_lockouts db))
       \<and> fst (LoadCharacterLockouts_named c en db) =
           map timer_of (filter (\<lambda>r. cl_character_id r = unat c \<and> \<not> cl_is_pending r
                                    \<and> now db < cl_expire_time r \<and> cl_expedition_name r = en)
                           (expedition_character_lockouts db))
       \<and> (r \<in> set (expedition_character_lockouts db) \<and> cl_character_id r = unat c
            \<and> \<not> cl_is_pending r \<and> now db < cl_expire_time r \<longrightarrow>
              timer_of r \<in> set (fst (LoadCharacterLockouts c db))
            \<and> timer_of r \<in> set (fst (LoadCharacterLockouts_named c (cl_expedition_name r) db)))
       \<and> (unique_lockouts db \<and> r \<in> set (expedition_character_lockouts db)
            \<and> cl_character_id r = unat c \<and> cl_expire_time r \<le> now db \<longrightarrow>
              (\<forall>t \<in> set (fst (LoadCharacterLockouts c db)).
                 \<not> (m_expedition_name t = cl_expedition_name r
                    \<and> m_event_name t = cl_event_name r))
            \<and> (\<forall>t \<in> set (fst (LoadCharacterLockouts_named c (cl_expedition_name r) db)).
                 m_event_name t \<noteq> cl_event_name r))"
proof (intro conjI ballI impI)
  show "fst (LoadCharacterLockouts c db) =
           map timer_of (filter (\<lambda>r. cl_character_id r = unat c \<and> \<not> cl_is_pending r
                                    \<and> now db < cl_expire_time r)
                           (expedition_character_lockouts db))"
    using assms by (simp add: LoadCharacterLockouts_eq)
  show "fst (LoadCharacterLockouts_named c en db) =
           map timer_of (filter (\<lambda>r. cl_character_id r = unat c \<and> \<not> cl_is_pending r
                                    \<and> now db < cl_expire_time r \<and> cl_expedition_name r = en)
                           (expedition_character_lockouts db))"
    using assms by (simp add: LoadCharacterLockouts_named_eq)
next
  assume "r \<in> set (expedition_character_lockouts db) \<and> cl_character_id r = unat c
            \<and> \<not> cl_is_pending r \<and> now db < cl_expire_time r"
  then show "timer_of r \<in> set (fst (LoadCharacterLockouts c db))"
    "timer_of r \<in> set (fst (LoadCharacterLockouts_named c (cl_expedition_name r) db))"
    using assms by (simp_all add: LoadCharacterLockouts_eq LoadCharacterLockouts_named_eq)
next
  fix t
  assume "unique_lockouts db \<and> r \<in> set (expedition_character_lockouts db)
            \<and> cl_character_id r = unat c \<and> cl_expire_time r \<le> now db"
    and "t \<in> set (fst (LoadCharacterLockouts c db))"
  then show "\<not> (m_expedition_name t = cl_expedition_name r
                    \<and> m_event_name t = cl_event_name r)"
    by (intro hidden_from_load [of db r c t]) simp_all
next
  fix t
  assume "unique_lockouts db \<and> r \<in> set (expedition_character_lockouts db)
            \<and> cl_character_id r = unat c \<and> cl_expire_time r \<le> now db"
    and "t \<in> set (fst (LoadCharacterLockouts_named c (cl_expedition_name r) db))"
  then show "m_event_name t \<noteq> cl_event_name r"
    by (intro hidden_from_load_named [of db r c t]) simp_all
qed

theorem active_reads_expiry_boundary_witness:
  "online sample_db
   \<and> unique_lockouts sample_db
   \<and> now sample_db < cl_expire_time boss1_row
   \<and> timer_of boss1_row \<in> set (fst (LoadCharacterLockouts 42 sample_db))
   \<and> timer_of boss1_row \<in> set (fst (LoadCharacterLockouts_named 42 ''Solteris'' sample_db))
   \<and> cl_expire_time boss2_row = now sample_db
   \<and> timer_of boss2_row \<notin> set (fst (LoadCharacterLockouts 42 sample_db))
   \<and> timer_of boss2_row \<notin> set (fst (LoadCharacterLockouts_named 42 ''Solteris'' sample_db))"
proof -
  have up: "online sample_db" and clock: "now sample_db = 100"
    by (simp_all add: sample_db_def)
  have one: "cl_character_id boss1_row = unat (42 :: 32 word)" "\<not> cl_is_pending boss1_row"
    "cl_expire_time boss1_row = 110" "cl_expedition_name boss1_row = ''Solteris''"
    by (simp_all add: boss1_row_def)
  have two: "cl_character_id boss2_row = unat (42 :: 32 word)"
    "cl_expire_time boss2_row = 100" "cl_expedition_name boss2_row = ''Solteris''"
    by (simp_all add: boss2_row_def)
  from active_reads_expiry_boundary [OF up, of 42 "''Solteris''" boss1_row] sample_rows(1) one clock
  have in1: "timer_of boss1_row \<in> set (fst (LoadCharacterLockouts 42 sample_db))"
    "timer_of boss1_row \<in> set (fst (LoadCharacterLockouts_named 42 ''Solteris'' sample_db))"
    by simp_all
  from active_reads_expiry_boundary [OF up, of 42 "''Solteris''" boss2_row] sample_unique
    sample_rows(2) two clock
  have "\<forall>t \<in> set (fst (LoadCharacterLockouts 42 sample_db)).
                 \<not> (m_expedition_name t = cl_expedition_name boss2_row
                    \<and> m_event_name t = cl_event_name boss2_row)"
    and "\<forall>t \<in> set (fst (LoadCharacterLockouts_named 42 (cl_expedition_name boss2_row) sample_db)).
                 m_event_name t \<noteq> cl_event_name boss2_row"
    by simp_all
  then have out2: "timer_of boss2_row \<notin> set (fst (LoadCharacterLockouts 42 sample_db))"
    "timer_of boss2_row \<notin> set (fst (LoadCharacterLockouts_named 42 ''Solteris'' sample_db))"
    by (auto simp add: timer_of_names two)
  from up sample_unique one(3) two(2) clock in1 out2 show ?thesis by simp
qed

section \<open>Empty batches\<close>

text \<open>
  C8. A batch operation given an empty collection sends no statement and returns the
  state it was given, query counter included: \<open>LoadMultipleExpeditionLockouts\<close> of no
  ids returns the empty map, \<open>InsertCharacterLockouts\<close> of no lockouts writes nothing,
  \<open>LoadMembersForCreateRequest\<close> of no names returns the result no query filled
  (no rows); so do the other batch operations.
\<close>

theorem empty_batch_sends_no_query:
  "LoadMultipleExpeditionLockouts [] db = (Map.empty, db)
   \<and> InsertCharacterLockouts character_id [] replace_timer is_pending db = db
   \<and> LoadMembersForCreateRequest [] expedition_name db = (no_result, db)
   \<and> Rows no_result = []
   \<and> DeleteMembersLockout [] expedition_name event_name db = db
   \<and> DeleteAllMembersPendingLockouts [] db = db
   \<and> InsertMembersLockout [] lockout db = db
   \<and> InsertLockouts expedition_id [] db = db
   \<and> InsertMembers expedition_id [] db = db"
  by (simp add: LoadMultipleExpeditionLockouts_def InsertCharacterLockouts_def
      LoadMembersForCreateRequest_def DeleteMembersLockout_def DeleteAllMembersPendingLockouts_def
      InsertMembersLockout_def InsertLockouts_def InsertMembers_def no_result_def)

theorem empty_batch_sends_no_query_witness:
  "LoadMultipleExpeditionLockouts [] sample_db = (Map.empty, sample_db)
   \<and> InsertCharacterLockouts 42 [] True False sample_db = sample_db
   \<and> LoadMembersForCreateRequest [] ''Solteris'' sample_db = (no_result, sample_db)
   \<and> queries_sent (snd (LoadMembersForCreateRequest [] ''Solteris'' sample_db)) = 0"
  using empty_batch_sends_no_query [of sample_db 42 True False "''Solteris''" "''boss1''"
      refresh_boss1 1]
  by (simp add: sample_db_def)

section \<open>Targeted deletions that match nothing\<close>

text \<open>
  C9, as stated, fails for \<open>DeleteCharacterLockout\<close>: with character id 0 it sends its
  \<^verbatim>\<open>DELETE\<close> like with any other id, and a row of character 0 that matches is removed.
\<close>

theorem DeleteCharacterLockout_zero_counterexample:
  "zero_row \<in> set (expedition_character_lockouts zero_db)
   \<and> zero_row \<notin> set (expedition_character_lockouts
                       (DeleteCharacterLockout 0 ''Solteris'' ''boss1'' zero_db))"
  by (simp add: DeleteCharacterLockout_eq zero_db_rest zero_db_rows zero_row_def sample_db_def)

text \<open>
  C9, amended. \<open>DeleteAllCharacterLockouts\<close> with character id 0 (in its two-argument
  form also with an empty expedition name) and \<open>DeleteMembersLockout\<close> with no member
  send no statement and return the state as it was. Each of the four targeted deletions
  whose filter matches no row returns the state with nothing changed but the count of
  statements sent. None has a result through which a failure could be signaled.
\<close>

theorem targeted_deletes_without_match:
  "DeleteAllCharacterLockouts 0 db = db
   \<and> DeleteAllCharacterLockouts_named 0 en db = db
   \<and> DeleteAllCharacterLockouts_named c [] db = db
   \<and> DeleteMembersLockout [] en ev db = db
   \<and> ((\<forall>r \<in> set (expedition_character_lockouts db). cl_character_id r \<noteq> unat c) \<longrightarrow>
        DeleteAllCharacterLockouts c db
          = db\<lparr>queries_sent := queries_sent (DeleteAllCharacterLockouts c db)\<rparr>)
   \<and> ((\<forall>r \<in> set (expedition_character_lockouts db).
          \<not> (cl_character_id r = unat c \<and> cl_expedition_name r = en)) \<longrightarrow>
        DeleteAllCharacterLockouts_named c en db
          = db\<lparr>queries_sent := queries_sent (DeleteAllCharacterLockouts_named c en db)\<rparr>)
   \<and> ((\<forall>r \<in> set (expedition_character_lockouts db).
          \<not> (cl_character_id r = unat c \<and> \<not> cl_is_pending r
             \<and> cl_expedition_name r = en \<and> cl_event_name r = ev)) \<longrightarrow>
        DeleteCharacterLockout c en ev db = db\<lparr>queries_sent := Suc (queries_sent db)\<rparr>)
   \<and> ((\<forall>r \<in> set (expedition_character_lockouts db).
          \<not> (cl_character_id r \<in> (\<lambda>m. unat (char_id m)) ` set ms \<and> \<not> cl_is_pending r
             \<and> cl_expedition_name r = en \<and> cl_event_name r = ev)) \<longrightarrow>
        DeleteMembersLockout ms en ev db
          = db\<lparr>queries_sent := queries_sent (DeleteMembersLockout ms en ev db)\<rparr>)"
proof (intro conjI impI)
  show "DeleteAllCharacterLockouts 0 db = db"
    by (simp add: DeleteAllCharacterLockouts_def)
  show "DeleteAllCharacterLockouts_named 0 en db = db"
    by (simp add: DeleteAllCharacterLockouts_named_def)
  show "DeleteAllCharacterLockouts_named c [] db = db"
    by (simp add: DeleteAllCharacterLockouts_named_def)
  show "DeleteMembersLockout [] en ev db = db"
    by (simp add: DeleteMembersLockout_def)
next
  assume "\<forall>r \<in> set (expedition_character_lockouts db). cl_character_id r \<noteq> unat c"
  then have "filter (\<lambda>r. cl_character_id r \<noteq> unat c) (expedition_character_lockouts db)
      = expedition_character_lockouts db"
    by (rule filter_none)
  then show "DeleteAllCharacterLockouts c db
          = db\<lparr>queries_sent := queries_sent (DeleteAllCharacterLockouts c db)\<rparr>"
    by (simp add: DeleteAllCharacterLockouts_eq)
next
  assume "\<forall>r \<in> set (expedition_character_lockouts db).
          \<not> (cl_character_id r = unat c \<and> cl_expedition_name r = en)"
  then have "filter (\<lambda>r. \<not> (cl_character_id r = unat c \<and> cl_expedition_name r = en))
      (expedition_character_lockouts db) = expedition_character_lockouts db"
    by (rule filter_none)
  then show "DeleteAllCharacterLockouts_named c en db
          = db\<lparr>queries_sent := queries_sent (DeleteAllCharacterLockouts_named c en db)\<rparr>"
    by (simp add: DeleteAllCharacterLockouts_named_eq)
next
  assume "\<forall>r \<in> set (expedition_character_lockouts db).
          \<not> (cl_character_id r = unat c \<and> \<not> cl_is_pending r
             \<and> cl_expedition_name r = en \<and> cl_event_name r = ev)"
  then have "filter (\<lambda>r. \<not> (cl_character_id r = unat c \<and> \<not> cl_is_pending r
             \<and> cl_expedition_name r = en \<and> cl_event_name r = ev))
      (expedition_character_lockouts db) = expedition_character_lockouts db"
    by (rule filter_none)
  then show "DeleteCharacterLockout c en ev db = db\<lparr>queries_sent := Suc (queries_sent db)\<rparr>"
    by (simp add: DeleteCharacterLockout_eq)
next
  assume "\<forall>r \<in> set (expedition_character_lockouts db).
          \<not> (cl_character_id r \<in> (\<lambda>m. unat (char_id m)) ` set ms \<and> \<not> cl_is_pending r
             \<and> cl_expedition_name r = en \<and> cl_event_name r = ev)"
  then have "filter (\<lambda>r. \<not> (cl_character_id r \<in> (\<lambda>m. unat (char_id m)) ` set ms
             \<and> \<not> cl_is_pending r \<and> cl_expedition_name r = en \<and> cl_event_name r = ev))
      (expedition_character_lockouts db) = expedition_character_lockouts db"
    by (rule filter_none)
  then show "DeleteMembersLockout ms en ev db
          = db\<lparr>queries_sent := queries_sent (DeleteMembersLockout ms en ev db)\<rparr>"
    by (simp add: DeleteMembersLockout_eq)
qed

theorem targeted_deletes_without_match_witness:
  "DeleteAllCharacterLockouts 0 zero_db = zero_db
   \<and> DeleteCharacterLockout 42 ''Solteris'' ''boss9'' sample_db
       = sample_db\<lparr>queries_sent := 1\<rparr>
   \<and> DeleteCharacterLockout 0 ''Solteris'' ''boss1'' sample_db
       = sample_db\<lparr>queries_sent := 1\<rparr>
   \<and> DeleteAllCharacterLockouts 9 sample_db = sample_db\<lparr>queries_sent := 1\<rparr>"
proof -
  note fact = targeted_deletes_without_match
  have none9: "\<forall>r \<in> set (expedition_character_lockouts sample_db).
          \<not> (cl_character_id r = unat (42 :: 32 word) \<and> \<not> cl_is_pending r
             \<and> cl_expedition_name r = ''Solteris'' \<and> cl_event_name r = ''boss9'')"
    by (simp add: sample_db_def)
  have none0: "\<forall>r \<in> set (expedition_character_lockouts sample_db).
          \<not> (cl_character_id r = unat (0 :: 32 word) \<and> \<not> cl_is_pending r
             \<and> cl_expedition_name r = ''Solteris'' \<and> cl_event_name r = ''boss1'')"
    by (simp add: sample_db_def)
  have nobody: "\<forall>r \<in> set (expedition_character_lockouts sample_db).
      cl_character_id r \<noteq> unat (9 :: 32 word)"
    by (simp add: sample_db_def)
  have count: "queries_sent sample_db = 0" by (simp add: sample_db_def)
  from fact [of zero_db] have a: "DeleteAllCharacterLockouts 0 zero_db = zero_db" by simp
  from fact [of sample_db "''Solteris''" 42 "''boss9''"] none9 count
  have b: "DeleteCharacterLockout 42 ''Solteris'' ''boss9'' sample_db
       = sample_db\<lparr>queries_sent := 1\<rparr>" by simp
  from fact [of sample_db "''Solteris''" 0 "''boss1''"] none0 count
  have c: "DeleteCharacterLockout 0 ''Solteris'' ''boss1'' sample_db
       = sample_db\<lparr>queries_sent := 1\<rparr>" by simp
  from fact [of sample_db "''Solteris''" 9] nobody
  have "DeleteAllCharacterLockouts 9 sample_db
          = sample_db\<lparr>queries_sent := queries_sent (DeleteAllCharacterLockouts 9 sample_db)\<rparr>"
    by blast
  moreover have "queries_sent (DeleteAllCharacterLockouts 9 sample_db) = 1"
    by (simp add: DeleteAllCharacterLockouts_eq count)
  ultimately have d: "DeleteAllCharacterLockouts 9 sample_db = sample_db\<lparr>queries_sent := 1\<rparr>"
    by simp
  from a b c d show ?thesis by simp
qed

section \<open>Targeted deletions and pending rows\<close>

text \<open>
  C10. \<open>DeleteCharacterLockout\<close> and \<open>DeleteMembersLockout\<close> remove rows whose pending
  flag is false only: the pending rows of the table are the same before and after,
  whatever the character, expedition name and event name. A pending row goes when its
  character's pending lockouts are discarded (\<open>DeletePendingLockouts\<close>, for a list of
  members \<open>DeleteAllMembersPendingLockouts\<close>) or all of the character's lockouts are
  deleted (\<open>DeleteAllCharacterLockouts\<close>, both forms), provided the statement reaches the
  server. The other writes of the table remove no row: after a promotion and, on a table
  whose unique index holds, after an upsert the key of every row is still held.
\<close>

theorem targeted_deletes_keep_pending_rows:
  "filter cl_is_pending
      (expedition_character_lockouts (DeleteCharacterLockout c en ev db))
     = filter cl_is_pending (expedition_character_lockouts db)
   \<and> filter cl_is_pending
      (expedition_character_lockouts (DeleteMembersLockout ms en ev db))
     = filter cl_is_pending (expedition_character_lockouts db)
   \<and> (online db \<longrightarrow>
        (\<forall>r \<in> set (expedition_character_lockouts (DeletePendingLockouts c db)).
           \<not> (cl_character_id r = unat c \<and> cl_is_pending r)))
   \<and> (online db \<and> ms \<noteq> [] \<longrightarrow>
        (\<forall>r \<in> set (expedition_character_lockouts (DeleteAllMembersPendingLockouts ms db)).
           \<not> (cl_character_id r \<in> (\<lambda>m. unat (char_id m)) ` set ms \<and> cl_is_pending r)))
   \<and> (online db \<and> c \<noteq> 0 \<longrightarrow>
        (\<forall>r \<in> set (expedition_character_lockouts (DeleteAllCharacterLockouts c db)).
           cl_character_id r \<noteq> unat c))
   \<and> (online db \<and> c \<noteq> 0 \<and> en \<noteq> [] \<longrightarrow>
        (\<forall>r \<in> set (expedition_character_lockouts (DeleteAllCharacterLockouts_named c en db)).
           \<not> (cl_character_id r = unat c \<and> cl_expedition_name r = en)))
   \<and> (p \<in> set (expedition_character_lockouts db) \<longrightarrow>
        character_lockout_key p \<in> character_lockout_key `
          set (expedition_character_lockouts (AssignPendingLockouts c en db)))
   \<and> (unique_lockouts db \<and> p \<in> set (expedition_character_lockouts db) \<longrightarrow>
        character_lockout_key p \<in> character_lockout_key `
          set (expedition_character_lockouts
                 (InsertCharacterLockouts c lockouts replace_timer is_pending db))
      \<and> character_lockout_key p \<in> character_lockout_key `
          set (expedition_character_lockouts (InsertMembersLockout ms lockout db)))"
proof -
  have one: "filter cl_is_pending
      (expedition_character_lockouts (DeleteCharacterLockout c en ev db))
     = filter cl_is_pending (expedition_character_lockouts db)"
    by (auto simp add: DeleteCharacterLockout_eq intro!: filter_cong)
  have many: "filter cl_is_pending
      (expedition_character_lockouts (DeleteMembersLockout ms en ev db))
     = filter cl_is_pending (expedition_character_lockouts db)"
    by (auto simp add: DeleteMembersLockout_eq intro!: filter_cong)
  have discard: "online db \<longrightarrow>
        (\<forall>r \<in> set (expedition_character_lockouts (DeletePendingLockouts c db)).
           \<not> (cl_character_id r = unat c \<and> cl_is_pending r))"
    by (simp add: DeletePendingLockouts_eq)
  have discard_many: "online db \<and> ms \<noteq> [] \<longrightarrow>
        (\<forall>r \<in> set (expedition_character_lockouts (DeleteAllMembersPendingLockouts ms db)).
           \<not> (cl_character_id r \<in> (\<lambda>m. unat (char_id m)) ` set ms \<and> cl_is_pending r))"
    by (simp add: DeleteAllMembersPendingLockouts_eq)
  have all: "online db \<and> c \<noteq> 0 \<longrightarrow>
        (\<forall>r \<in> set (expedition_character_lockouts (DeleteAllCharacterLockouts c db)).
           cl_character_id r \<noteq> unat c)"
    by (simp add: DeleteAllCharacterLockouts_eq)
  have all_named: "online db \<and> c \<noteq> 0 \<and> en \<noteq> [] \<longrightarrow>
        (\<forall>r \<in> set (expedition_character_lockouts (DeleteAllCharacterLockouts_named c en db)).
           \<not> (cl_character_id r = unat c \<and> cl_expedition_name r = en))"
    by (simp add: DeleteAllCharacterLockouts_named_eq)
  have promote: "p \<in> set (expedition_character_lockouts db) \<longrightarrow>
        character_lockout_key p \<in> character_lockout_key `
          set (expedition_character_lockouts (AssignPendingLockouts c en db))"
    by (simp add: writes_keep_key(1))
  have upsert: "unique_lockouts db \<and> p \<in> set (expedition_character_lockouts db) \<longrightarrow>
        character_lockout_key p \<in> character_lockout_key `
          set (expedition_character_lockouts
                 (InsertCharacterLockouts c lockouts replace_timer is_pending db))
      \<and> character_lockout_key p \<in> character_lockout_key `
          set (expedition_character_lockouts (InsertMembersLockout ms lockout db))"
    by (simp add: writes_keep_key(2,3))
  from one many discard discard_many all all_named promote upsert show ?thesis
    by (intro conjI)
qed

theorem targeted_deletes_keep_pending_rows_witness:
  "online sample_db
   \<and> filter cl_is_pending (expedition_character_lockouts sample_db) = [boss3_row]
   \<and> filter cl_is_pending (expedition_character_lockouts
        (DeleteCharacterLockout 42 ''Solteris'' ''boss3'' sample_db)) = [boss3_row]
   \<and> filter cl_is_pending (expedition_character_lockouts
        (DeleteMembersLockout [\<lparr>char_id = 42, name = ''Al''\<rparr>] ''Solteris'' ''boss3'' sample_db))
      = [boss3_row]
   \<and> boss3_row \<notin> set (expedition_character_lockouts (DeletePendingLockouts 42 sample_db))
   \<and> boss3_row \<notin> set (expedition_character_lockouts (DeleteAllCharacterLockouts 42 sample_db))"
proof -
  note fact = targeted_deletes_keep_pending_rows [where db = sample_db and c = 42
      and en = "''Solteris''" and ev = "''boss3''" and ms = "[\<lparr>char_id = 42, name = ''Al''\<rparr>]"]
  have up: "online sample_db" by (simp add: sample_db_def)
  have pending: "filter cl_is_pending (expedition_character_lockouts sample_db) = [boss3_row]"
    by (simp add: sample_db_def boss3_row_def)
  have three: "cl_character_id boss3_row = unat (42 :: 32 word)" "cl_is_pending boss3_row"
    by (simp_all add: boss3_row_def)
  from fact have one: "filter cl_is_pending (expedition_character_lockouts
        (DeleteCharacterLockout 42 ''Solteris'' ''boss3'' sample_db))
      = filter cl_is_pending (expedition_character_lockouts sample_db)"
    by (rule conjunct1)
  from fact have many: "filter cl_is_pending (expedition_character_lockouts
        (DeleteMembersLockout [\<lparr>char_id = 42, name = ''Al''\<rparr>] ''Solteris'' ''boss3'' sample_db))
      = filter cl_is_pending (expedition_character_lockouts sample_db)"
    by (rule conjunct2 [THEN conjunct1])
  from fact have "online sample_db \<longrightarrow>
        (\<forall>r \<in> set (expedition_character_lockouts (DeletePendingLockouts 42 sample_db)).
           \<not> (cl_character_id r = unat (42 :: 32 word) \<and> cl_is_pending r))"
    by (rule conjunct2 [THEN conjunct2, THEN conjunct1])
  with up three
  have discard: "boss3_row \<notin> set (expedition_character_lockouts (DeletePendingLockouts 42 sample_db))"
    by blast
  from fact have "online sample_db \<and> (42 :: 32 word) \<noteq> 0 \<longrightarrow>
        (\<forall>r \<in> set (expedition_character_lockouts (DeleteAllCharacterLockouts 42 sample_db)).
           cl_character_id r \<noteq> unat (42 :: 32 word))"
    by (rule conjunct2 [THEN conjunct2, THEN conjunct2, THEN conjunct2, THEN conjunct1])
  moreover have "(42 :: 32 word) \<noteq> 0" by simp
  ultimately
  have all: "boss3_row \<notin> set (expedition_character_lockouts (DeleteAllCharacterLockouts 42 sample_db))"
    using up three by blast
  from up pending one many discard all show ?thesis by simp
qed

end
